theory Spec2Isabelle
  imports Main "HOL-Library.AList"
begin

section \<open>The vote API route (pages/api/ratings/vote, the handler with auth_id)\<close>

subsection \<open>JSON payloads and responses\<close>

datatype json = JNull | JBool bool | JStr string | JObj "(string \<times> json) list"

record response =
  status :: nat
  payload :: json

definition json_error :: "nat \<Rightarrow> string \<Rightarrow> response" where
  "json_error code msg = \<lparr>status = code, payload = JObj [(''error'', JStr msg)]\<rparr>"

subsection \<open>The votes table\<close>

text \<open>
  One row of the table \<open>votes\<close>, with the columns the handler reads and writes:
  \<open>id\<close>, \<open>review_id\<close>, \<open>anonymous_id\<close>, \<open>auth_id\<close>, \<open>vote_type\<close>, \<open>created_at\<close>.
  The table is the list of its rows.
\<close>

record vote =
  vote_id :: string
  review_id :: string
  anonymous_id :: string
  auth_id :: string
  vote_type :: string
  created_at :: string

type_synonym votes_table = "vote list"

text \<open>
  The errors a store call reports. \<open>PGRST116\<close> is the code of \<open>.single()\<close> when the
  result is not exactly one row; \<open>UniqueViolation\<close> is the failure of an insert that
  would duplicate a unique key; \<open>StoreFailure\<close> is every other failure.
\<close>

datatype pg_error = PGRST116 | UniqueViolation | StoreFailure

text \<open>
  What the handler gets from its collaborators during one request: the auth resolver
  (\<open>supabase.auth.getUser\<close>), the anonymous-identity generator (\<open>get_anonymous_id\<close>),
  the clock, the identifier the store gives a new row, and whether each store call of the
  request fails.
\<close>

record env =
  auth_user :: "string option"
  auth_error :: bool
  anon_data :: "string option"
  anon_error :: bool
  check_fault :: bool
  delete_fault :: bool
  update_fault :: bool
  insert_fault :: "pg_error option"
  fetch_fault :: bool
  now :: string
  new_id :: string

text \<open>\<open>.from('votes').select(..).eq('review_id', r).eq('auth_id', a).single()\<close>\<close>

definition select_single :: "bool \<Rightarrow> string \<Rightarrow> string \<Rightarrow> votes_table \<Rightarrow> vote option \<times> pg_error option" where
  "select_single fault r a tbl =
     (if fault then (None, Some StoreFailure)
      else (case filter (\<lambda>v. review_id v = r \<and> auth_id v = a) tbl of
              [v] \<Rightarrow> (Some v, None)
            | _ \<Rightarrow> (None, Some PGRST116)))"

text \<open>\<open>.from('votes').delete().eq('id', i)\<close>\<close>

definition delete_by_id :: "bool \<Rightarrow> string \<Rightarrow> votes_table \<Rightarrow> pg_error option \<times> votes_table" where
  "delete_by_id fault i tbl =
     (if fault then (Some StoreFailure, tbl)
      else (None, filter (\<lambda>v. vote_id v \<noteq> i) tbl))"

text \<open>\<open>.from('votes').update({vote_type, anonymous_id, created_at}).eq('id', i)\<close>\<close>

definition update_by_id :: "bool \<Rightarrow> string \<Rightarrow> string \<Rightarrow> string \<Rightarrow> string \<Rightarrow> votes_table \<Rightarrow> pg_error option \<times> votes_table" where
  "update_by_id fault i vt anon ts tbl =
     (if fault then (Some StoreFailure, tbl)
      else (None, map (\<lambda>v. if vote_id v = i
                              then v\<lparr>vote_type := vt, anonymous_id := anon, created_at := ts\<rparr>
                              else v) tbl))"

text \<open>
  \<open>.from('votes').insert({review_id, anonymous_id, auth_id, vote_type})\<close>; the caller
  passes the whole row, with the \<open>id\<close> and \<open>created_at\<close> the store fills in.
\<close>

definition insert_vote :: "pg_error option \<Rightarrow> vote \<Rightarrow> votes_table \<Rightarrow> pg_error option \<times> votes_table" where
  "insert_vote fault v tbl =
     (case fault of Some e \<Rightarrow> (Some e, tbl) | None \<Rightarrow> (None, tbl @ [v]))"

text \<open>\<open>.from('votes').delete().eq('review_id', r).eq('auth_id', a)\<close>\<close>

definition delete_by_pair :: "bool \<Rightarrow> string \<Rightarrow> string \<Rightarrow> votes_table \<Rightarrow> pg_error option \<times> votes_table" where
  "delete_by_pair fault r a tbl =
     (if fault then (Some StoreFailure, tbl)
      else (None, filter (\<lambda>v. \<not> (review_id v = r \<and> auth_id v = a)) tbl))"

text \<open>\<open>.from('votes').select('review_id, vote_type').eq('auth_id', a).in('review_id', ids)\<close>\<close>

definition select_in :: "bool \<Rightarrow> string \<Rightarrow> string list \<Rightarrow> votes_table \<Rightarrow> vote list \<times> pg_error option" where
  "select_in fault a ids tbl =
     (if fault then ([], Some StoreFailure)
      else (filter (\<lambda>v. auth_id v = a \<and> review_id v \<in> set ids) tbl, None))"

subsection \<open>POST: cast, switch or toggle off\<close>

text \<open>
  \<open>req.body\<close> is the parsed JSON body: \<open>null\<close>, or an object whose fields
  \<open>review_id\<close> and \<open>vote_type\<close> are each a string or absent (a body that is a string,
  a number, a boolean or an array has neither field and behaves as the object without
  them). A field is falsy (\<open>!x\<close>) when it is absent or the empty string.
\<close>

record vote_body =
  body_review_id :: "string option"
  body_vote_type :: "string option"

datatype request_body = BodyNull | BodyObject vote_body

text \<open>
  \<open>const { review_id, vote_type } = req.body\<close> throws a TypeError on \<open>null\<close>; the
  statement is inside the \<open>try\<close>, so the \<open>catch\<close> block answers.
\<close>

definition destructure :: "request_body \<Rightarrow> vote_body option" where
  "destructure b = (case b of BodyNull \<Rightarrow> None | BodyObject parsed \<Rightarrow> Some parsed)"

definition falsy :: "string option \<Rightarrow> bool" where
  "falsy x = (case x of None \<Rightarrow> True | Some s \<Rightarrow> s = [])"

text \<open>
  The handler awaits each collaborator, and nothing holds the table between two awaits.
  Its run is therefore two steps on the table: the lookup of the existing vote
  (everything up to and including the test of \<open>checkError\<close>), which reads the table,
  and the one mutation the three cases choose, which is applied to the table as it is
  when the mutation arrives. After the lookup the handler either has its response
  already, or goes on with the validated request and the row the lookup found.
\<close>

datatype lookup_outcome =
    Respond response
  | Proceed string string string string "vote option"

definition POST_lookup :: "env \<Rightarrow> request_body \<Rightarrow> votes_table \<Rightarrow> lookup_outcome" where
  "POST_lookup e b tbl =
     (case destructure b of
        None \<Rightarrow> Respond (json_error 500 ''Internal server error'')
      | Some parsed \<Rightarrow>
          (if falsy (body_review_id parsed) \<or> falsy (body_vote_type parsed) then
             Respond (json_error 400 ''review_id and vote_type are required'')
           else
             (case (body_review_id parsed, body_vote_type parsed) of
                (Some rid, Some vt) \<Rightarrow>
                  (if vt \<notin> set [''helpful'', ''unhelpful''] then
                     Respond (json_error 400 ''vote_type must be \"helpful\" or \"unhelpful\"'')
                   else
                     (case (auth_error e, auth_user e) of
                        (False, Some uid) \<Rightarrow>
                          (if anon_error e \<or> falsy (anon_data e) then
                             Respond (json_error 500 ''Failed to get user identifier'')
                           else
                             (case anon_data e of
                                Some anon \<Rightarrow>
                                  (case select_single (check_fault e) rid uid tbl of
                                     (existingVote, checkError) \<Rightarrow>
                                       (if checkError \<noteq> None \<and> checkError \<noteq> Some PGRST116 then
                                          Respond (json_error 500 ''Failed to check existing vote'')
                                        else Proceed rid vt uid anon existingVote))
                              | None \<Rightarrow> Respond (json_error 500 ''Failed to get user identifier'')))
                      | _ \<Rightarrow> Respond (json_error 401 ''Authentication required'')))
              | _ \<Rightarrow> Respond (json_error 400 ''review_id and vote_type are required''))))"

text \<open>The three cases of the handler, once the existing vote has been looked up.\<close>

definition post_cases :: "env \<Rightarrow> string \<Rightarrow> string \<Rightarrow> string \<Rightarrow> string \<Rightarrow> vote option \<Rightarrow> votes_table \<Rightarrow> response \<times> votes_table" where
  "post_cases e rid vt uid anon existingVote tbl =
     (case existingVote of
        Some ev \<Rightarrow>
          (if vote_type ev = vt then
             (case delete_by_id (delete_fault e) (vote_id ev) tbl of
                (Some err, tbl') \<Rightarrow> (json_error 500 ''Failed to remove vote'', tbl')
              | (None, tbl') \<Rightarrow>
                  (\<lparr>status = 200,
                    payload = JObj [(''success'', JBool True), (''action'', JStr ''removed''),
                                    (''vote_type'', JNull)]\<rparr>, tbl'))
           else
             (case update_by_id (update_fault e) (vote_id ev) vt anon (now e) tbl of
                (Some err, tbl') \<Rightarrow> (json_error 500 ''Failed to update vote'', tbl')
              | (None, tbl') \<Rightarrow>
                  (\<lparr>status = 200,
                    payload = JObj [(''success'', JBool True), (''action'', JStr ''updated''),
                                    (''vote_type'', JStr vt)]\<rparr>, tbl')))
      | None \<Rightarrow>
          (case insert_vote (insert_fault e)
                  \<lparr>vote_id = new_id e, review_id = rid, anonymous_id = anon, auth_id = uid,
                   vote_type = vt, created_at = now e\<rparr> tbl of
             (Some err, tbl') \<Rightarrow> (json_error 500 ''Failed to cast vote'', tbl')
           | (None, tbl') \<Rightarrow>
               (\<lparr>status = 200,
                 payload = JObj [(''success'', JBool True), (''action'', JStr ''created''),
                                 (''vote_type'', JStr vt)]\<rparr>, tbl')))"

definition POST_mutate :: "env \<Rightarrow> lookup_outcome \<Rightarrow> votes_table \<Rightarrow> response \<times> votes_table" where
  "POST_mutate e outcome tbl =
     (case outcome of
        Respond r \<Rightarrow> (r, tbl)
      | Proceed rid vt uid anon existingVote \<Rightarrow> post_cases e rid vt uid anon existingVote tbl)"

text \<open>One request handled with no other request in between: both steps on the same table.\<close>

definition handler_POST :: "env \<Rightarrow> request_body \<Rightarrow> votes_table \<Rightarrow> response \<times> votes_table" where
  "handler_POST e b tbl = POST_mutate e (POST_lookup e b tbl) tbl"

text \<open>
  Two requests whose lookups both come before either mutation: both read the table as
  it was, the first mutation is applied to it, the second to what the first left.
\<close>

definition racing_POSTs :: "env \<Rightarrow> request_body \<Rightarrow> env \<Rightarrow> request_body \<Rightarrow> votes_table \<Rightarrow> response list \<times> votes_table" where
  "racing_POSTs e1 b1 e2 b2 tbl =
     (let first_lookup = POST_lookup e1 b1 tbl;
          second_lookup = POST_lookup e2 b2 tbl
      in (case POST_mutate e1 first_lookup tbl of
            (r1, tbl1) \<Rightarrow>
              (case POST_mutate e2 second_lookup tbl1 of
                 (r2, tbl2) \<Rightarrow> ([r1, r2], tbl2))))"

subsection \<open>GET: the caller's votes on a batch of reviews\<close>

text \<open>
  \<open>req.query.review_ids\<close> is absent, one string, or (when the key is repeated) an array
  of strings.
\<close>

datatype query_param = Absent | Single string | Multiple "string list"

text \<open>\<open>s.split(',')\<close>: the pieces between the commas, the empty ones included.\<close>

fun split_comma :: "string \<Rightarrow> string list" where
  "split_comma [] = [[]]"
| "split_comma (c # cs) =
     (if c = CHR '','' then [] # split_comma cs
      else (case split_comma cs of
              w # ws \<Rightarrow> (c # w) # ws
            | [] \<Rightarrow> [[c]]))"

text \<open>
  Strings are the bytes of their UTF-8 encoding. \<open>id.trim()\<close> removes white space and
  line terminators from both ends: TAB, LF, VT, FF, CR, SP, U+00A0, U+1680, U+2000 to
  U+200A, U+2028, U+2029, U+202F, U+205F, U+3000 and U+FEFF, here as their encodings.
\<close>

definition white_space :: "string list" where
  "white_space =
     [[CHR 0x09], [CHR 0x0A], [CHR 0x0B], [CHR 0x0C], [CHR 0x0D], [CHR 0x20],
      [CHR 0xC2, CHR 0xA0],
      [CHR 0xE1, CHR 0x9A, CHR 0x80],
      [CHR 0xE2, CHR 0x80, CHR 0x80], [CHR 0xE2, CHR 0x80, CHR 0x81],
      [CHR 0xE2, CHR 0x80, CHR 0x82], [CHR 0xE2, CHR 0x80, CHR 0x83],
      [CHR 0xE2, CHR 0x80, CHR 0x84], [CHR 0xE2, CHR 0x80, CHR 0x85],
      [CHR 0xE2, CHR 0x80, CHR 0x86], [CHR 0xE2, CHR 0x80, CHR 0x87],
      [CHR 0xE2, CHR 0x80, CHR 0x88], [CHR 0xE2, CHR 0x80, CHR 0x89],
      [CHR 0xE2, CHR 0x80, CHR 0x8A],
      [CHR 0xE2, CHR 0x80, CHR 0xA8], [CHR 0xE2, CHR 0x80, CHR 0xA9],
      [CHR 0xE2, CHR 0x80, CHR 0xAF],
      [CHR 0xE2, CHR 0x81, CHR 0x9F],
      [CHR 0xE3, CHR 0x80, CHR 0x80],
      [CHR 0xEF, CHR 0xBB, CHR 0xBF]]"

text \<open>The length of the sequence among \<open>seqs\<close> that the string starts with, or 0.\<close>

definition leading :: "string list \<Rightarrow> string \<Rightarrow> nat" where
  "leading seqs s =
     (case find (\<lambda>w. take (length w) s = w) seqs of None \<Rightarrow> 0 | Some w \<Rightarrow> length w)"

function strip :: "string list \<Rightarrow> string \<Rightarrow> string" where
  "strip seqs s =
     (if leading seqs s = 0 \<or> s = [] then s else strip seqs (drop (leading seqs s) s))"
  by pat_completeness auto
termination
  by (relation "measure (\<lambda>(seqs, s). length s)") auto

definition trim :: "string \<Rightarrow> string" where
  "trim s = rev (strip (map rev white_space) (rev (strip white_space s)))"

text \<open>
  Writing a property of a plain object, \<open>acc[key] = value\<close>. The key \<open>__proto__\<close> is
  the accessor of \<open>Object.prototype\<close>, whose setter ignores a string: no property is
  written. A key the object has keeps its place and takes the value. A new key that is
  an array index (the decimal numeral, without leading zeros, of a number up to
  \<open>2^32 - 2\<close>) goes among the array indices in ascending order, which come first; any
  other new key goes last.
\<close>

definition is_digit :: "char \<Rightarrow> bool" where
  "is_digit c = (48 \<le> (of_char c :: int) \<and> (of_char c :: int) \<le> 57)"

definition digits_value :: "string \<Rightarrow> int" where
  "digits_value s = foldl (\<lambda>n c. 10 * n + (of_char c - 48)) 0 s"

definition array_index :: "string \<Rightarrow> int option" where
  "array_index k =
     (if k \<noteq> [] \<and> list_all is_digit k \<and> (k = ''0'' \<or> hd k \<noteq> CHR ''0'')
         \<and> digits_value k \<le> 4294967294
      then Some (digits_value k) else None)"

fun insert_index :: "int \<Rightarrow> string \<Rightarrow> json \<Rightarrow> (string \<times> json) list \<Rightarrow> (string \<times> json) list" where
  "insert_index n k v [] = [(k, v)]"
| "insert_index n k v ((k', v') # rest) =
     (case array_index k' of
        Some n' \<Rightarrow>
          (if n' < n then (k', v') # insert_index n k v rest else (k, v) # (k', v') # rest)
      | None \<Rightarrow> (k, v) # (k', v') # rest)"

definition object_set :: "string \<Rightarrow> json \<Rightarrow> (string \<times> json) list \<Rightarrow> (string \<times> json) list" where
  "object_set k v obj =
     (if k = ''__proto__'' then obj
      else if k \<in> fst ` set obj then AList.update k v obj
      else (case array_index k of
              Some n \<Rightarrow> insert_index n k v obj
            | None \<Rightarrow> obj @ [(k, v)]))"

text \<open>
  The \<open>reduce\<close> that turns the rows into an object: \<open>acc[vote.review_id] = vote.vote_type\<close>,
  a later row overwriting an earlier one with the same key.
\<close>

definition votesMap :: "vote list \<Rightarrow> (string \<times> json) list" where
  "votesMap rows = foldl (\<lambda>acc v. object_set (review_id v) (JStr (vote_type v)) acc) [] rows"

definition handler_GET :: "env \<Rightarrow> query_param \<Rightarrow> votes_table \<Rightarrow> response" where
  "handler_GET e review_ids tbl =
     (case review_ids of
        Single s \<Rightarrow>
          (if s = [] then json_error 400 ''review_ids parameter is required''
           else
             (case auth_user e of
                None \<Rightarrow> \<lparr>status = 200, payload = JObj [(''success'', JBool True), (''votes'', JObj [])]\<rparr>
              | Some uid \<Rightarrow>
                  (let reviewIdArray = map trim (split_comma s) in
                   (case select_in (fetch_fault e) uid reviewIdArray tbl of
                      (rows, Some err) \<Rightarrow> json_error 500 ''Failed to fetch votes''
                    | (rows, None) \<Rightarrow>
                        \<lparr>status = 200,
                         payload = JObj [(''success'', JBool True), (''votes'', JObj (votesMap rows))]\<rparr>))))
      | _ \<Rightarrow> json_error 400 ''review_ids parameter is required'')"

subsection \<open>DELETE: remove the caller's vote\<close>

definition handler_DELETE :: "env \<Rightarrow> request_body \<Rightarrow> votes_table \<Rightarrow> response \<times> votes_table" where
  "handler_DELETE e b tbl =
     (case destructure b of
        None \<Rightarrow> (json_error 500 ''Internal server error'', tbl)
      | Some parsed \<Rightarrow>
          (case body_review_id parsed of
             None \<Rightarrow> (json_error 400 ''review_id is required'', tbl)
           | Some rid \<Rightarrow>
               (if rid = [] then (json_error 400 ''review_id is required'', tbl)
                else
                  (case (auth_error e, auth_user e) of
                     (False, Some uid) \<Rightarrow>
                       (case delete_by_pair (delete_fault e) rid uid tbl of
                          (Some err, tbl') \<Rightarrow> (json_error 500 ''Failed to delete vote'', tbl')
                        | (None, tbl') \<Rightarrow>
                            (\<lparr>status = 200,
                              payload = JObj [(''success'', JBool True),
                                              (''action'', JStr ''deleted'')]\<rparr>, tbl'))
                   | _ \<Rightarrow> (json_error 401 ''Authentication required'', tbl)))))"

subsection \<open>Sequences of POST requests\<close>


text \<open>The rows of one (review, caller identity) pair.\<close>

definition rows_of :: "string \<Rightarrow> string \<Rightarrow> votes_table \<Rightarrow> vote list" where
  "rows_of r a tbl = filter (\<lambda>v. review_id v = r \<and> auth_id v = a) tbl"

section \<open>The client hook useVotes\<close>

subsection \<open>State\<close>

datatype direction = Helpful | Unhelpful

text \<open>\<open>VoteType = 'helpful' | 'unhelpful' | null\<close>: \<open>None\<close> is \<open>null\<close>.\<close>

type_synonym VoteType = "direction option"

text \<open>
  A count is a JavaScript number. The model has the numbers whose value is an integer
  (given by that value), \<open>NaN\<close>, and \<open>undefined\<close> for a count that is missing;
  fractions and the infinities are left out. \<open>x + 1\<close> on doubles is exact from
  \<open>-2^53\<close> up to \<open>2^53 - 1\<close>; from \<open>2^53\<close> on the sum is rounded to the nearest
  double, to the one with the even significand on a tie, so the increment is lost at
  \<open>2^53\<close>. \<open>x - 1\<close> is the mirror image. \<open>x++\<close> and \<open>x--\<close> turn \<open>undefined\<close> and
  \<open>NaN\<close> into \<open>NaN\<close>.
\<close>

datatype number = Num int | NaN | Undefined

definition double_succ :: "int \<Rightarrow> int" where
  "double_succ x =
     (if - (2 ^ 53) \<le> x \<and> x < 2 ^ 53 then x + 1
      else if \<bar>x\<bar> < 2 ^ 54 then (if even (x div 2) then x else x + 2)
      else x)"

definition double_pred :: "int \<Rightarrow> int" where
  "double_pred x = - double_succ (- x)"

definition increment :: "number \<Rightarrow> number" where
  "increment n = (case n of Num x \<Rightarrow> Num (double_succ x) | _ \<Rightarrow> NaN)"

definition decrement :: "number \<Rightarrow> number" where
  "decrement n = (case n of Num x \<Rightarrow> Num (double_pred x) | _ \<Rightarrow> NaN)"

record vote_count =
  helpful :: number
  unhelpful :: number

record rollback_entry =
  cached_vote :: VoteType
  cached_counts :: vote_count

text \<open>The calls of \<open>fetch\<close>, and what the hook shows or reports to its callbacks.\<close>

datatype api_call = POST_vote string direction | DELETE_vote string | GET_votes "string list"

datatype signal =
    ConsoleError string
  | ToastError string
  | OnVoteError string
  | OnVoteSuccess string VoteType

text \<open>
  The state of one instance of the hook: the two React states \<open>votes\<close> and
  \<open>voteCounts\<close> (objects keyed by review id, a key being absent or present),
  \<open>isLoading\<close>, the two refs \<open>pendingOperations\<close> and \<open>rollbackCache\<close>, the option
  \<open>reviewIds\<close>, and the trace of requests sent and signals raised.
\<close>

record hook =
  votes :: "string \<rightharpoonup> VoteType"
  voteCounts :: "string \<rightharpoonup> vote_count"
  isLoading :: bool
  pendingOperations :: "string set"
  rollbackCache :: "string \<rightharpoonup> rollback_entry"
  reviewIds :: "string list"
  sent :: "api_call list"
  signals :: "signal list"

text \<open>\<open>votes[reviewId] || null\<close> and \<open>voteCounts[reviewId] || { helpful: 0, unhelpful: 0 }\<close>\<close>

definition vote_or_null :: "(string \<rightharpoonup> VoteType) \<Rightarrow> string \<Rightarrow> VoteType" where
  "vote_or_null m reviewId = (case m reviewId of None \<Rightarrow> None | Some v \<Rightarrow> v)"

definition counts_or_zero :: "(string \<rightharpoonup> vote_count) \<Rightarrow> string \<Rightarrow> vote_count" where
  "counts_or_zero m reviewId =
     (case m reviewId of None \<Rightarrow> \<lparr>helpful = Num 0, unhelpful = Num 0\<rparr> | Some c \<Rightarrow> c)"

definition getUserVote :: "hook \<Rightarrow> string \<Rightarrow> VoteType" where
  "getUserVote s reviewId = vote_or_null (votes s) reviewId"

subsection \<open>Optimistic counts and rollback\<close>

text \<open>The body of the updater: remove the old vote, then add the new one.\<close>

definition count_update :: "VoteType \<Rightarrow> VoteType \<Rightarrow> vote_count \<Rightarrow> vote_count" where
  "count_update oldVote newVote current =
     (let h0 = helpful current;
          u0 = unhelpful current;
          h1 = (if oldVote = Some Helpful then decrement h0 else h0);
          u1 = (if oldVote = Some Unhelpful then decrement u0 else u0);
          h2 = (if newVote = Some Helpful then increment h1 else h1);
          u2 = (if newVote = Some Unhelpful then increment u1 else u1)
      in \<lparr>helpful = h2, unhelpful = u2\<rparr>)"

definition updateVoteCountsOptimistically :: "string \<Rightarrow> VoteType \<Rightarrow> VoteType \<Rightarrow> hook \<Rightarrow> hook" where
  "updateVoteCountsOptimistically reviewId oldVote newVote s =
     s\<lparr>voteCounts := (voteCounts s)(reviewId \<mapsto>
          count_update oldVote newVote (counts_or_zero (voteCounts s) reviewId))\<rparr>"

definition rollbackVote :: "string \<Rightarrow> hook \<Rightarrow> hook" where
  "rollbackVote reviewId s =
     (case rollbackCache s reviewId of
        Some cached \<Rightarrow>
          s\<lparr>votes := (votes s)(reviewId \<mapsto> cached_vote cached),
            voteCounts := (voteCounts s)(reviewId \<mapsto> cached_counts cached),
            rollbackCache := (rollbackCache s)(reviewId := None)\<rparr>
      | None \<Rightarrow> s)"

text \<open>The net score of a pair of integer counts, helpful minus unhelpful.\<close>

definition net_score :: "vote_count \<Rightarrow> int option" where
  "net_score c =
     (case (helpful c, unhelpful c) of (Num h, Num u) \<Rightarrow> Some (h - u) | _ \<Rightarrow> None)"

subsection \<open>What a request comes back with\<close>

text \<open>
  \<open>fetch\<close> rejects (\<open>Rejected\<close>), or answers with a status outside 2xx (\<open>NotOk\<close>), or
  answers 2xx with a body that \<open>response.json()\<close> cannot parse (\<open>BadJson\<close>), or answers
  2xx with a parsed body (\<open>Json\<close>).
\<close>

datatype 'a fetch_result = Rejected string | NotOk | BadJson string | Json 'a

record vote_reply =
  reply_success :: bool
  reply_vote_type :: VoteType
  reply_error :: "string option"

record delete_reply =
  deleted_success :: bool
  deleted_error :: "string option"

record votes_reply =
  fetched_success :: bool
  fetched_votes :: "string \<rightharpoonup> VoteType"

text \<open>
  The results the hook treats as a failure of the request: everything but a parsed body
  whose \<open>success\<close> is true.
\<close>

definition request_failed :: "('a \<Rightarrow> bool) \<Rightarrow> 'a fetch_result \<Rightarrow> bool" where
  "request_failed ok res = (case res of Json data \<Rightarrow> \<not> ok data | _ \<Rightarrow> True)"

text \<open>\<open>data.error || fallback\<close>\<close>

definition error_or :: "string option \<Rightarrow> string \<Rightarrow> string" where
  "error_or err fallback = (if falsy err then fallback else (case err of Some m \<Rightarrow> m | None \<Rightarrow> fallback))"

text \<open>The message of the error that reaches the \<open>catch\<close> block of a failed request.\<close>

definition thrown_message :: "('a \<Rightarrow> string option) \<Rightarrow> string \<Rightarrow> 'a fetch_result \<Rightarrow> string" where
  "thrown_message err fallback res =
     (case res of
        Rejected msg \<Rightarrow> msg
      | NotOk \<Rightarrow> fallback
      | BadJson msg \<Rightarrow> msg
      | Json data \<Rightarrow> error_or (err data) fallback)"

subsection \<open>castVote\<close>

text \<open>
  Each call is made through the callback of the latest render, so the \<open>votes\<close> and
  \<open>voteCounts\<close> it reads are the current ones; the two refs are always current. The
  callbacks \<open>onVoteSuccess\<close> and \<open>onVoteError\<close> are recorded as signals (they run
  when the caller of the hook gave them).

  An async function runs up to its \<open>await fetch(..)\<close>, and resumes when the request
  settles. \<open>castVote_send\<close> is the first part (the pending guard, the snapshot, the
  optimistic update, the request); \<open>castVote_settle\<close> is the second (reconciliation or
  rollback, then \<open>finally\<close>), run only for a call that passed the guard.
\<close>

definition castVote_send :: "string \<Rightarrow> direction \<Rightarrow> hook \<Rightarrow> hook" where
  "castVote_send reviewId voteType s =
     (if reviewId \<in> pendingOperations s then s
      else
        (let s1 = s\<lparr>pendingOperations := insert reviewId (pendingOperations s)\<rparr>;
             oldVote = vote_or_null (votes s1) reviewId;
             oldCounts = counts_or_zero (voteCounts s1) reviewId;
             s2 = s1\<lparr>rollbackCache := (rollbackCache s1)(reviewId \<mapsto>
                        \<lparr>cached_vote = oldVote, cached_counts = oldCounts\<rparr>)\<rparr>;
             s3 = s2\<lparr>votes := (votes s2)(reviewId \<mapsto> Some voteType)\<rparr>;
             s4 = updateVoteCountsOptimistically reviewId oldVote (Some voteType) s3
         in s4\<lparr>sent := sent s4 @ [POST_vote reviewId voteType]\<rparr>))"

definition castVote_failed :: "string \<Rightarrow> string \<Rightarrow> hook \<Rightarrow> hook" where
  "castVote_failed reviewId msg s =
     (let s1 = s\<lparr>signals := signals s @ [ConsoleError ''Error casting vote:'']\<rparr>;
          s2 = rollbackVote reviewId s1
      in s2\<lparr>signals := signals s2 @ [ToastError ''Failed to cast vote. Please try again.'',
                                       OnVoteError msg]\<rparr>)"

definition castVote_settle :: "string \<Rightarrow> vote_reply fetch_result \<Rightarrow> hook \<Rightarrow> hook" where
  "castVote_settle reviewId res s =
     (let s' =
        (case res of
           Rejected msg \<Rightarrow> castVote_failed reviewId msg s
         | NotOk \<Rightarrow> castVote_failed reviewId ''Failed to cast vote'' s
         | BadJson msg \<Rightarrow> castVote_failed reviewId msg s
         | Json data \<Rightarrow>
             (if \<not> reply_success data then
                castVote_failed reviewId (error_or (reply_error data) ''Failed to cast vote'') s
              else
                s\<lparr>votes := (votes s)(reviewId \<mapsto> reply_vote_type data),
                  rollbackCache := (rollbackCache s)(reviewId := None),
                  signals := signals s @ [OnVoteSuccess reviewId (reply_vote_type data)]\<rparr>))
      in s'\<lparr>pendingOperations := pendingOperations s' - {reviewId}\<rparr>)"

subsection \<open>removeVote\<close>

definition removeVote_send :: "string \<Rightarrow> hook \<Rightarrow> hook" where
  "removeVote_send reviewId s =
     (if reviewId \<in> pendingOperations s then s
      else
        (let s1 = s\<lparr>pendingOperations := insert reviewId (pendingOperations s)\<rparr>;
             oldVote = vote_or_null (votes s1) reviewId;
             oldCounts = counts_or_zero (voteCounts s1) reviewId;
             s2 = s1\<lparr>rollbackCache := (rollbackCache s1)(reviewId \<mapsto>
                        \<lparr>cached_vote = oldVote, cached_counts = oldCounts\<rparr>)\<rparr>;
             s3 = s2\<lparr>votes := (votes s2)(reviewId \<mapsto> None)\<rparr>;
             s4 = updateVoteCountsOptimistically reviewId oldVote None s3
         in s4\<lparr>sent := sent s4 @ [DELETE_vote reviewId]\<rparr>))"

definition removeVote_failed :: "string \<Rightarrow> string \<Rightarrow> hook \<Rightarrow> hook" where
  "removeVote_failed reviewId msg s =
     (let s1 = s\<lparr>signals := signals s @ [ConsoleError ''Error removing vote:'']\<rparr>;
          s2 = rollbackVote reviewId s1
      in s2\<lparr>signals := signals s2 @ [ToastError ''Failed to remove vote. Please try again.'',
                                       OnVoteError msg]\<rparr>)"

definition removeVote_settle :: "string \<Rightarrow> delete_reply fetch_result \<Rightarrow> hook \<Rightarrow> hook" where
  "removeVote_settle reviewId res s =
     (let s' =
        (case res of
           Rejected msg \<Rightarrow> removeVote_failed reviewId msg s
         | NotOk \<Rightarrow> removeVote_failed reviewId ''Failed to remove vote'' s
         | BadJson msg \<Rightarrow> removeVote_failed reviewId msg s
         | Json data \<Rightarrow>
             (if \<not> deleted_success data then
                removeVote_failed reviewId (error_or (deleted_error data) ''Failed to remove vote'') s
              else
                s\<lparr>rollbackCache := (rollbackCache s)(reviewId := None),
                  signals := signals s @ [OnVoteSuccess reviewId None]\<rparr>))
      in s'\<lparr>pendingOperations := pendingOperations s' - {reviewId}\<rparr>)"

subsection \<open>toggleVote, fetchUserVotes, refreshVotes\<close>

definition toggleVote_send :: "string \<Rightarrow> direction \<Rightarrow> hook \<Rightarrow> hook" where
  "toggleVote_send reviewId voteType s =
     (if votes s reviewId = Some (Some voteType) then removeVote_send reviewId s
      else castVote_send reviewId voteType s)"

definition fetchUserVotes_send :: "string list \<Rightarrow> hook \<Rightarrow> hook" where
  "fetchUserVotes_send ids s =
     (if ids = [] then s
      else s\<lparr>isLoading := True, sent := sent s @ [GET_votes ids]\<rparr>)"

definition fetchUserVotes_failed :: "string \<Rightarrow> hook \<Rightarrow> hook" where
  "fetchUserVotes_failed msg s =
     s\<lparr>signals := signals s @ [ConsoleError ''Error fetching votes:'', OnVoteError msg]\<rparr>"

definition fetchUserVotes_settle :: "votes_reply fetch_result \<Rightarrow> hook \<Rightarrow> hook" where
  "fetchUserVotes_settle res s =
     (let s' =
        (case res of
           Rejected msg \<Rightarrow> fetchUserVotes_failed msg s
         | NotOk \<Rightarrow> fetchUserVotes_failed ''Failed to fetch votes'' s
         | BadJson msg \<Rightarrow> fetchUserVotes_failed msg s
         | Json data \<Rightarrow>
             (if fetched_success data then s\<lparr>votes := votes s ++ fetched_votes data\<rparr> else s))
      in s'\<lparr>isLoading := False\<rparr>)"

definition refreshVotes_send :: "string list option \<Rightarrow> hook \<Rightarrow> hook" where
  "refreshVotes_send ids s =
     (let idsToFetch = (case ids of Some i \<Rightarrow> i | None \<Rightarrow> reviewIds s) in
      if idsToFetch \<noteq> [] then fetchUserVotes_send idsToFetch s else s)"

section \<open>The VoteButton component\<close>

text \<open>
  The component keeps the caller's vote and one net count. \<open>handleVote\<close> is a closure
  of the render it was created in: the values it restores on failure are the
  \<open>currentVote\<close> and \<open>voteCount\<close> of that render.
\<close>

record button =
  currentVote :: VoteType
  voteCount :: number
  button_isLoading :: bool
  button_sent :: "api_call list"

definition handleVote_count :: "VoteType \<Rightarrow> direction \<Rightarrow> number \<Rightarrow> VoteType \<times> number" where
  "handleVote_count oldVote voteType oldCount =
     (if oldVote = Some voteType then
        (None, if voteType = Helpful then decrement oldCount else increment oldCount)
      else
        (let c1 = (if oldVote = Some Helpful then decrement oldCount
                   else if oldVote = Some Unhelpful then increment oldCount
                   else oldCount);
             c2 = (if voteType = Helpful then increment c1 else decrement c1)
         in (Some voteType, c2)))"

definition handleVote_send :: "string \<Rightarrow> direction \<Rightarrow> button \<Rightarrow> button" where
  "handleVote_send reviewId voteType b =
     (if button_isLoading b then b
      else
        (case handleVote_count (currentVote b) voteType (voteCount b) of
           (newVote, newCount) \<Rightarrow>
             b\<lparr>button_isLoading := True, currentVote := newVote, voteCount := newCount,
               button_sent := button_sent b @ [POST_vote reviewId voteType]\<rparr>))"

definition handleVote_settle :: "button \<Rightarrow> vote_reply fetch_result \<Rightarrow> button \<Rightarrow> button" where
  "handleVote_settle rendered res b =
     (let rolled_back = b\<lparr>currentVote := currentVote rendered, voteCount := voteCount rendered\<rparr>;
          b' = (case res of
                  Json data \<Rightarrow>
                    (if reply_success data then b\<lparr>currentVote := reply_vote_type data\<rparr>
                     else rolled_back)
                | _ \<Rightarrow> rolled_back)
      in b'\<lparr>button_isLoading := False\<rparr>)"

section \<open>Sample inputs\<close>

text \<open>A caller \<open>u1\<close> whose collaborators all answer, and the same request unauthenticated.\<close>

definition sample_env :: env where
  "sample_env =
     \<lparr>auth_user = Some ''u1'', auth_error = False, anon_data = Some ''anon-7'',
      anon_error = False, check_fault = False, delete_fault = False, update_fault = False,
      insert_fault = None, fetch_fault = False, now = ''2025-01-01T00:00:00Z'',
      new_id = ''v1''\<rparr>"

definition anonymous_env :: env where
  "anonymous_env = sample_env\<lparr>auth_user := None\<rparr>"

definition cast_body :: "string \<Rightarrow> string \<Rightarrow> request_body" where
  "cast_body r vt = BodyObject \<lparr>body_review_id = Some r, body_vote_type = Some vt\<rparr>"

definition sample_row :: "string \<Rightarrow> vote" where
  "sample_row vt =
     \<lparr>vote_id = ''v1'', review_id = ''r1'', anonymous_id = ''anon-7'', auth_id = ''u1'',
      vote_type = vt, created_at = ''2025-01-01T00:00:00Z''\<rparr>"

text \<open>The same caller when the store refuses the insert as a duplicate.\<close>

definition conflict_env :: env where
  "conflict_env = sample_env\<lparr>insert_fault := Some UniqueViolation\<rparr>"

text \<open>Another caller's row on the same review, and a row of \<open>u1\<close> on a second review.\<close>

definition other_row :: vote where
  "other_row =
     \<lparr>vote_id = ''v2'', review_id = ''r1'', anonymous_id = ''anon-9'', auth_id = ''u2'',
      vote_type = ''unhelpful'', created_at = ''2025-01-02T00:00:00Z''\<rparr>"

definition second_row :: vote where
  "second_row =
     \<lparr>vote_id = ''v3'', review_id = ''r2'', anonymous_id = ''anon-7'', auth_id = ''u1'',
      vote_type = ''unhelpful'', created_at = ''2025-01-03T00:00:00Z''\<rparr>"

text \<open>The ids \<open>r1\<close> and \<open>r2\<close> as a query parameter, the first after a no-break space.\<close>

definition padded_ids :: string where
  "padded_ids = [CHR 0xC2, CHR 0xA0] @ ''r1, r2''"


text \<open>
  A hook that shows \<open>u1\<close>'s helpful vote on \<open>r1\<close> with counts 3/1 and has nothing in
  flight, and a button in the same situation with net count 2.
\<close>

definition sample_hook :: hook where
  "sample_hook =
     \<lparr>votes = [''r1'' \<mapsto> Some Helpful],
      voteCounts = [''r1'' \<mapsto> \<lparr>helpful = Num 3, unhelpful = Num 1\<rparr>],
      isLoading = False,
      pendingOperations = {},
      rollbackCache = Map.empty,
      reviewIds = [''r1''],
      sent = [],
      signals = []\<rparr>"

text \<open>A hook just mounted: no entry for any review, nothing in flight.\<close>

definition fresh_hook :: hook where
  "fresh_hook =
     \<lparr>votes = Map.empty,
      voteCounts = Map.empty,
      isLoading = False,
      pendingOperations = {},
      rollbackCache = Map.empty,
      reviewIds = [],
      sent = [],
      signals = []\<rparr>"

definition sample_button :: button where
  "sample_button =
     \<lparr>currentVote = Some Helpful, voteCount = Num 2, button_isLoading = False,
      button_sent = []\<rparr>"

text \<open>
  The response to a POST that toggled the vote off, and the response to a GET for a
  caller whose only vote is unhelpful on \<open>r2\<close>.
\<close>

definition removed_reply :: vote_reply where
  "removed_reply = \<lparr>reply_success = True, reply_vote_type = None, reply_error = None\<rparr>"

definition refreshed_reply :: votes_reply where
  "refreshed_reply = \<lparr>fetched_success = True, fetched_votes = [''r2'' \<mapsto> Some Unhelpful]\<rparr>"

section \<open>Properties of the vote route\<close>

subsection \<open>Rejected requests\<close>

text \<open>
  C9 as the specification states it: a POST in which \<open>review_id\<close> or \<open>vote_type\<close> is
  missing is answered 400. With the JSON body \<open>null\<close> both are missing, the
  destructuring throws and the \<open>catch\<close> block answers 500.
\<close>

theorem handler_POST_null_body:
  "handler_POST sample_env BodyNull [sample_row ''helpful'']
   = (\<lparr>status = 500, payload = JObj [(''error'', JStr ''Internal server error'')]\<rparr>,
      [sample_row ''helpful''])"
  by (simp add: handler_POST_def POST_lookup_def POST_mutate_def destructure_def json_error_def)

text \<open>
  C9, amended. A POST whose body is a JSON object in which \<open>review_id\<close> or \<open>vote_type\<close>
  is missing (or empty), or whose \<open>vote_type\<close> is neither \<open>helpful\<close> nor \<open>unhelpful\<close>,
  is answered 400 and leaves the table as it was; a POST with valid fields from a caller
  the auth resolver cannot identify is answered 401, the table again untouched; a POST
  whose body is \<open>null\<close> is answered 500, the table untouched.
\<close>

theorem handler_POST_rejects:
  "(falsy (body_review_id b) \<or> falsy (body_vote_type b)
      \<or> body_vote_type b \<notin> {Some ''helpful'', Some ''unhelpful''}
    \<longrightarrow> status (fst (handler_POST e (BodyObject b) tbl)) = 400
        \<and> snd (handler_POST e (BodyObject b) tbl) = tbl)
   \<and> (\<not> falsy (body_review_id b) \<and> body_vote_type b \<in> {Some ''helpful'', Some ''unhelpful''}
        \<and> (auth_error e \<or> auth_user e = None)
    \<longrightarrow> status (fst (handler_POST e (BodyObject b) tbl)) = 401
        \<and> snd (handler_POST e (BodyObject b) tbl) = tbl)
   \<and> status (fst (handler_POST e BodyNull tbl)) = 500
   \<and> snd (handler_POST e BodyNull tbl) = tbl"
  by (cases "body_review_id b"; cases "body_vote_type b"; cases "auth_user e"; cases "auth_error e")
     (auto simp: handler_POST_def POST_lookup_def POST_mutate_def destructure_def falsy_def
        json_error_def)

theorem handler_POST_rejects_witness:
  "body_vote_type \<lparr>body_review_id = Some ''r1'', body_vote_type = Some ''maybe''\<rparr>
      \<notin> {Some ''helpful'', Some ''unhelpful''}
   \<and> status (fst (handler_POST sample_env (cast_body ''r1'' ''maybe'') [])) = 400
   \<and> snd (handler_POST sample_env (cast_body ''r1'' ''maybe'') []) = []
   \<and> falsy (body_review_id \<lparr>body_review_id = None, body_vote_type = Some ''helpful''\<rparr>)
   \<and> status (fst (handler_POST sample_env
         (BodyObject \<lparr>body_review_id = None, body_vote_type = Some ''helpful''\<rparr>) [])) = 400
   \<and> \<not> falsy (body_review_id \<lparr>body_review_id = Some ''r1'', body_vote_type = Some ''helpful''\<rparr>)
   \<and> body_vote_type \<lparr>body_review_id = Some ''r1'', body_vote_type = Some ''helpful''\<rparr>
      \<in> {Some ''helpful'', Some ''unhelpful''}
   \<and> auth_user anonymous_env = None
   \<and> status (fst (handler_POST anonymous_env (cast_body ''r1'' ''helpful'') [])) = 401"
  using handler_POST_rejects [of "\<lparr>body_review_id = Some ''r1'', body_vote_type = Some ''maybe''\<rparr>"
          sample_env "[]"]
        handler_POST_rejects [of "\<lparr>body_review_id = None, body_vote_type = Some ''helpful''\<rparr>"
          sample_env "[]"]
        handler_POST_rejects [of "\<lparr>body_review_id = Some ''r1'', body_vote_type = Some ''helpful''\<rparr>"
          anonymous_env "[]"]
  by (simp add: falsy_def cast_body_def anonymous_env_def sample_env_def)

subsection \<open>The transition table\<close>

lemma rows_of_delete:
  "rows_of r a (filter (\<lambda>v. vote_id v \<noteq> i) tbl) = filter (\<lambda>v. vote_id v \<noteq> i) (rows_of r a tbl)"
  by (induction tbl) (auto simp: rows_of_def)

lemma rows_of_update:
  "rows_of r a (map (\<lambda>v. if vote_id v = i
                             then v\<lparr>vote_type := vt, anonymous_id := anon, created_at := ts\<rparr>
                             else v) tbl)
   = map (\<lambda>v. if vote_id v = i
                then v\<lparr>vote_type := vt, anonymous_id := anon, created_at := ts\<rparr>
                else v) (rows_of r a tbl)"
  by (induction tbl) (auto simp: rows_of_def)

lemma rows_of_append:
  "rows_of r a (tbl @ [v])
   = rows_of r a tbl @ (if review_id v = r \<and> auth_id v = a then [v] else [])"
  by (simp add: rows_of_def)

lemma select_single_rows:
  "select_single False r a tbl
   = (case rows_of r a tbl of [v] \<Rightarrow> (Some v, None) | _ \<Rightarrow> (None, Some PGRST116))"
  by (simp add: select_single_def rows_of_def)

text \<open>
  A request that passes validation, authentication and the identity generator, and whose
  lookup does not fail, goes on to the three cases with the row the lookup found.
\<close>

lemma POST_lookup_valid:
  assumes "body_review_id b = Some rid" "body_vote_type b = Some vt" "rid \<noteq> []"
    "vt \<in> {''helpful'', ''unhelpful''}"
    "auth_user e = Some uid" "\<not> auth_error e"
    "anon_data e = Some anon" "anon \<noteq> []" "\<not> anon_error e" "\<not> check_fault e"
  shows "POST_lookup e (BodyObject b) tbl =
     Proceed rid vt uid anon (case rows_of rid uid tbl of [v] \<Rightarrow> Some v | _ \<Rightarrow> None)"
  using assms
  by (auto simp: POST_lookup_def destructure_def falsy_def select_single_rows split: list.splits)

lemma handler_POST_valid:
  assumes "body_review_id b = Some rid" "body_vote_type b = Some vt" "rid \<noteq> []"
    "vt \<in> {''helpful'', ''unhelpful''}"
    "auth_user e = Some uid" "\<not> auth_error e"
    "anon_data e = Some anon" "anon \<noteq> []" "\<not> anon_error e" "\<not> check_fault e"
  shows "handler_POST e (BodyObject b) tbl =
     post_cases e rid vt uid anon (case rows_of rid uid tbl of [v] \<Rightarrow> Some v | _ \<Rightarrow> None) tbl"
  by (simp add: handler_POST_def POST_mutate_def POST_lookup_valid [OF assms])

text \<open>
  C2. The transition table of the POST handler, for an authenticated caller with valid
  input and a store that answers. With no row for (review, caller) the handler inserts
  one with the requested direction and answers \<open>created\<close>; with a row of the same
  direction it deletes the row and answers \<open>removed\<close> with \<open>vote_type\<close> null, so the pair
  has no vote left; with a row of the other direction it rewrites that row's direction,
  display identity and timestamp in place and answers \<open>updated\<close>.
\<close>

theorem handler_POST_transitions:
  assumes "body_review_id b = Some rid" "body_vote_type b = Some vt" "rid \<noteq> []"
    "vt \<in> {''helpful'', ''unhelpful''}"
    "auth_user e = Some uid" "\<not> auth_error e"
    "anon_data e = Some anon" "anon \<noteq> []" "\<not> anon_error e"
    "\<not> check_fault e" "\<not> delete_fault e" "\<not> update_fault e" "insert_fault e = None"
  shows
   "(rows_of rid uid tbl = [] \<longrightarrow>
       handler_POST e (BodyObject b) tbl =
         (\<lparr>status = 200,
           payload = JObj [(''success'', JBool True), (''action'', JStr ''created''),
                           (''vote_type'', JStr vt)]\<rparr>,
          tbl @ [\<lparr>vote_id = new_id e, review_id = rid, anonymous_id = anon, auth_id = uid,
                  vote_type = vt, created_at = now e\<rparr>])
       \<and> map vote_type (rows_of rid uid (snd (handler_POST e (BodyObject b) tbl))) = [vt])
    \<and> (\<forall>ev. rows_of rid uid tbl = [ev] \<and> vote_type ev = vt \<longrightarrow>
       handler_POST e (BodyObject b) tbl =
         (\<lparr>status = 200,
           payload = JObj [(''success'', JBool True), (''action'', JStr ''removed''),
                           (''vote_type'', JNull)]\<rparr>,
          filter (\<lambda>v. vote_id v \<noteq> vote_id ev) tbl)
       \<and> rows_of rid uid (snd (handler_POST e (BodyObject b) tbl)) = [])
    \<and> (\<forall>ev. rows_of rid uid tbl = [ev] \<and> vote_type ev \<noteq> vt \<longrightarrow>
       handler_POST e (BodyObject b) tbl =
         (\<lparr>status = 200,
           payload = JObj [(''success'', JBool True), (''action'', JStr ''updated''),
                           (''vote_type'', JStr vt)]\<rparr>,
          map (\<lambda>v. if vote_id v = vote_id ev
                    then v\<lparr>vote_type := vt, anonymous_id := anon, created_at := now e\<rparr>
                    else v) tbl)
       \<and> rows_of rid uid (snd (handler_POST e (BodyObject b) tbl))
           = [ev\<lparr>vote_type := vt, anonymous_id := anon, created_at := now e\<rparr>])"
proof -
  note h = handler_POST_valid [OF assms(1-10), of tbl]
  show ?thesis
    using assms(11-13)
    by (auto simp: h post_cases_def delete_by_id_def update_by_id_def insert_vote_def
          rows_of_delete rows_of_update rows_of_append)
qed

text \<open>
  The scenario of the specification: \<open>u1\<close> casts helpful on \<open>r1\<close> (created), then
  unhelpful (updated), then unhelpful again (removed).
\<close>

theorem handler_POST_transitions_witness:
  "rows_of ''r1'' ''u1'' [] = []
   \<and> handler_POST sample_env (cast_body ''r1'' ''helpful'') []
       = (\<lparr>status = 200,
           payload = JObj [(''success'', JBool True), (''action'', JStr ''created''),
                           (''vote_type'', JStr ''helpful'')]\<rparr>,
          [sample_row ''helpful''])
   \<and> rows_of ''r1'' ''u1'' [sample_row ''helpful''] = [sample_row ''helpful'']
   \<and> vote_type (sample_row ''helpful'') \<noteq> ''unhelpful''
   \<and> handler_POST sample_env (cast_body ''r1'' ''unhelpful'') [sample_row ''helpful'']
       = (\<lparr>status = 200,
           payload = JObj [(''success'', JBool True), (''action'', JStr ''updated''),
                           (''vote_type'', JStr ''unhelpful'')]\<rparr>,
          [sample_row ''unhelpful''])
   \<and> rows_of ''r1'' ''u1'' [sample_row ''unhelpful''] = [sample_row ''unhelpful'']
   \<and> vote_type (sample_row ''unhelpful'') = ''unhelpful''
   \<and> handler_POST sample_env (cast_body ''r1'' ''unhelpful'') [sample_row ''unhelpful'']
       = (\<lparr>status = 200,
           payload = JObj [(''success'', JBool True), (''action'', JStr ''removed''),
                           (''vote_type'', JNull)]\<rparr>,
          [])"
  using handler_POST_transitions [of "\<lparr>body_review_id = Some ''r1'', body_vote_type = Some ''helpful''\<rparr>"
          "''r1''" "''helpful''" sample_env "''u1''" "''anon-7''" "[]"]
        handler_POST_transitions [of "\<lparr>body_review_id = Some ''r1'', body_vote_type = Some ''unhelpful''\<rparr>"
          "''r1''" "''unhelpful''" sample_env "''u1''" "''anon-7''" "[sample_row ''helpful'']"]
        handler_POST_transitions [of "\<lparr>body_review_id = Some ''r1'', body_vote_type = Some ''unhelpful''\<rparr>"
          "''r1''" "''unhelpful''" sample_env "''u1''" "''anon-7''" "[sample_row ''unhelpful'']"]
  by (simp add: cast_body_def sample_env_def sample_row_def rows_of_def)

subsection \<open>At most one row for a review and a caller\<close>







subsection \<open>A refused insert\<close>

text \<open>
  C3 as the specification states it: when the store refuses the insert because the
  (review, caller) pair would be duplicated, the service retries as an update and never
  answers with an error. Two requests of \<open>u1\<close> on \<open>r1\<close> race, the first for helpful,
  the second for unhelpful; both lookups find no row, the first insert succeeds and the
  store refuses the second as a duplicate. The second request is answered 500, and the
  row the first one wrote still says helpful: nothing was retried as an update.
\<close>

theorem racing_POSTs_conflict_surfaces:
  "racing_POSTs sample_env (cast_body ''r1'' ''helpful'') conflict_env (cast_body ''r1'' ''unhelpful'') []
   = ([\<lparr>status = 200,
         payload = JObj [(''success'', JBool True), (''action'', JStr ''created''),
                         (''vote_type'', JStr ''helpful'')]\<rparr>,
       \<lparr>status = 500, payload = JObj [(''error'', JStr ''Failed to cast vote'')]\<rparr>],
      [sample_row ''helpful''])"
  by (simp add: racing_POSTs_def POST_lookup_def POST_mutate_def post_cases_def destructure_def
        select_single_def falsy_def insert_vote_def json_error_def
        cast_body_def conflict_env_def sample_env_def sample_row_def)

text \<open>
  C3, amended. When the lookup of a valid request finds no single row for the pair and
  the insert then fails, for whatever reason (a uniqueness violation included), the
  handler answers 500 with the error \<open>Failed to cast vote\<close> and leaves the table as it
  is when the insert arrives, whatever it holds by then, a row another request has
  written for the same pair in the meantime included.
\<close>

theorem POST_insert_failure:
  assumes "body_review_id b = Some rid" "body_vote_type b = Some vt" "rid \<noteq> []"
    "vt \<in> {''helpful'', ''unhelpful''}"
    "auth_user e = Some uid" "\<not> auth_error e"
    "anon_data e = Some anon" "anon \<noteq> []" "\<not> anon_error e" "\<not> check_fault e"
    "\<forall>v. rows_of rid uid looked_up \<noteq> [v]"
    "insert_fault e = Some err"
  shows "POST_lookup e (BodyObject b) looked_up = Proceed rid vt uid anon None
       \<and> POST_mutate e (Proceed rid vt uid anon None) tbl
           = (\<lparr>status = 500, payload = JObj [(''error'', JStr ''Failed to cast vote'')]\<rparr>, tbl)
       \<and> handler_POST e (BodyObject b) looked_up
           = (\<lparr>status = 500, payload = JObj [(''error'', JStr ''Failed to cast vote'')]\<rparr>,
              looked_up)"
proof -
  have found: "POST_lookup e (BodyObject b) looked_up = Proceed rid vt uid anon None"
    using assms(11)
    by (auto simp: POST_lookup_valid [OF assms(1-10)] split: list.splits)
  have refused: "POST_mutate e (Proceed rid vt uid anon None) t
           = (\<lparr>status = 500, payload = JObj [(''error'', JStr ''Failed to cast vote'')]\<rparr>, t)"
    for t
    using assms(12)
    by (simp add: POST_mutate_def post_cases_def insert_vote_def json_error_def)
  show ?thesis
    by (simp add: found refused handler_POST_def)
qed

theorem POST_insert_failure_witness:
  "(\<forall>v. rows_of ''r1'' ''u1'' [] \<noteq> [v])
   \<and> insert_fault conflict_env = Some UniqueViolation
   \<and> POST_lookup conflict_env (cast_body ''r1'' ''unhelpful'') []
       = Proceed ''r1'' ''unhelpful'' ''u1'' ''anon-7'' None
   \<and> rows_of ''r1'' ''u1'' [sample_row ''helpful''] = [sample_row ''helpful'']
   \<and> POST_mutate conflict_env (Proceed ''r1'' ''unhelpful'' ''u1'' ''anon-7'' None)
         [sample_row ''helpful'']
       = (\<lparr>status = 500, payload = JObj [(''error'', JStr ''Failed to cast vote'')]\<rparr>,
          [sample_row ''helpful''])"
  using POST_insert_failure [of "\<lparr>body_review_id = Some ''r1'', body_vote_type = Some ''unhelpful''\<rparr>"
          "''r1''" "''unhelpful''" conflict_env "''u1''" "''anon-7''" "[]" UniqueViolation
          "[sample_row ''helpful'']"]
  by (simp add: conflict_env_def cast_body_def sample_env_def sample_row_def rows_of_def)

subsection \<open>The batch GET\<close>

lemma map_of_append_new:
  "k \<notin> fst ` set obj \<Longrightarrow> map_of (obj @ [(k, v)]) = (map_of obj)(k \<mapsto> v)"
  by (induction obj) auto

lemma map_of_insert_index:
  "k \<notin> fst ` set obj \<Longrightarrow> map_of (insert_index n k v obj) = (map_of obj)(k \<mapsto> v)"
  by (induction obj) (auto split: option.splits)

lemma map_of_object_set:
  "map_of (object_set k v obj) = (if k = ''__proto__'' then map_of obj else (map_of obj)(k \<mapsto> v))"
proof (cases "array_index k")
  case None
  then show ?thesis
    unfolding object_set_def
    by (simp add: update_conv' map_of_append_new del: map_of_append)
next
  case (Some n)
  then show ?thesis
    unfolding object_set_def
    by (simp add: update_conv' map_of_insert_index)
qed

lemma map_of_foldl_object_set:
  "map_of (foldl (\<lambda>acc v. object_set (review_id v) (JStr (vote_type v)) acc) acc rows) k
   = (case filter (\<lambda>v. review_id v = k) rows of
        [] \<Rightarrow> map_of acc k
      | r # rs \<Rightarrow> if k = ''__proto__'' then map_of acc k
                  else Some (JStr (vote_type (last (r # rs)))))"
proof (induction rows arbitrary: acc)
  case Nil
  then show ?case by simp
next
  case (Cons v rows)
  show ?case
  proof (cases "review_id v = k")
    case True
    then show ?thesis
      by (cases "filter (\<lambda>v. review_id v = k) rows")
         (simp_all add: Cons.IH map_of_object_set)
  next
    case False
    then show ?thesis
      by (cases "filter (\<lambda>v. review_id v = k) rows")
         (simp_all add: Cons.IH map_of_object_set)
  qed
qed

lemma map_of_votesMap:
  "map_of (votesMap rows) k
   = (case filter (\<lambda>v. review_id v = k) rows of
        [] \<Rightarrow> None
      | r # rs \<Rightarrow> if k = ''__proto__'' then None
                  else Some (JStr (vote_type (last (r # rs)))))"
  unfolding votesMap_def map_of_foldl_object_set
  by (cases "filter (\<lambda>v. review_id v = k) rows") simp_all

lemma filter_requested:
  "filter (\<lambda>v. review_id v = k) (filter (\<lambda>v. auth_id v = uid \<and> review_id v \<in> set ids) tbl)
   = (if k \<in> set ids then rows_of k uid tbl else [])"
  by (induction tbl) (auto simp: rows_of_def)

text \<open>
  C7. A GET with a non-empty \<open>review_ids\<close> string from a caller without identity is
  answered 200 with \<open>success\<close> true and an empty \<open>votes\<close> object. For an identified
  caller whose fetch succeeds, the \<open>votes\<close> object has exactly the requested review ids
  (the pieces between the commas, trimmed) on which the caller has a row, each mapped to
  that row's direction (to the last row's, should the table hold several for the pair).
  The one key a plain object cannot take, \<open>__proto__\<close>, is never among them.
\<close>

theorem handler_GET_votes:
  assumes "s \<noteq> []"
  shows "(auth_user e = None \<longrightarrow>
            handler_GET e (Single s) tbl
            = \<lparr>status = 200, payload = JObj [(''success'', JBool True), (''votes'', JObj [])]\<rparr>)
       \<and> (\<forall>uid. auth_user e = Some uid \<and> \<not> fetch_fault e \<longrightarrow>
            (\<exists>m. handler_GET e (Single s) tbl
                   = \<lparr>status = 200,
                      payload = JObj [(''success'', JBool True), (''votes'', JObj m)]\<rparr>
               \<and> (\<forall>rid. map_of m rid =
                     (if rid \<in> set (map trim (split_comma s)) \<and> rid \<noteq> ''__proto__''
                      then (case rows_of rid uid tbl of
                              [] \<Rightarrow> None
                            | r # rs \<Rightarrow> Some (JStr (vote_type (last (r # rs)))))
                      else None))))"
proof -
  have entries: "map_of (votesMap (filter (\<lambda>v. auth_id v = uid \<and> review_id v \<in> set ids) tbl)) rid
      = (if rid \<in> set ids \<and> rid \<noteq> ''__proto__''
         then (case rows_of rid uid tbl of
                 [] \<Rightarrow> None
               | r # rs \<Rightarrow> Some (JStr (vote_type (last (r # rs)))))
         else None)" for uid ids rid
    unfolding map_of_votesMap filter_requested
    by (cases "rows_of rid uid tbl") auto
  show ?thesis
    using assms
    by (auto simp: handler_GET_def select_in_def entries simp del: set_map)
qed

theorem handler_GET_votes_witness:
  "padded_ids \<noteq> []
   \<and> auth_user anonymous_env = None
   \<and> handler_GET anonymous_env (Single padded_ids) [sample_row ''helpful'', other_row]
       = \<lparr>status = 200, payload = JObj [(''success'', JBool True), (''votes'', JObj [])]\<rparr>
   \<and> auth_user sample_env = Some ''u1'' \<and> \<not> fetch_fault sample_env
   \<and> map trim (split_comma padded_ids) = [''r1'', ''r2'']
   \<and> handler_GET sample_env (Single padded_ids) [sample_row ''helpful'', other_row, second_row]
       = \<lparr>status = 200,
          payload = JObj [(''success'', JBool True),
                          (''votes'', JObj [(''r1'', JStr ''helpful''),
                                            (''r2'', JStr ''unhelpful'')])]\<rparr>"
proof -
  have ids: "map trim (split_comma padded_ids) = [''r1'', ''r2'']"
    by code_simp
  have keys: "array_index ''r1'' = None" "array_index ''r2'' = None"
    by code_simp+
  have given: "padded_ids \<noteq> []" "auth_user anonymous_env = None"
    "auth_user sample_env = Some ''u1''" "\<not> fetch_fault sample_env"
    by (simp_all add: padded_ids_def anonymous_env_def sample_env_def)
  have answer:
    "handler_GET sample_env (Single padded_ids) [sample_row ''helpful'', other_row, second_row]
       = \<lparr>status = 200,
          payload = JObj [(''success'', JBool True),
                          (''votes'', JObj [(''r1'', JStr ''helpful''),
                                            (''r2'', JStr ''unhelpful'')])]\<rparr>"
    using given
    by (simp add: handler_GET_def ids select_in_def votesMap_def object_set_def keys
          sample_row_def other_row_def second_row_def)
  note g1 = handler_GET_votes [OF given(1), of anonymous_env "[sample_row ''helpful'', other_row]"]
  note g2 = handler_GET_votes [OF given(1), of sample_env
              "[sample_row ''helpful'', other_row, second_row]"]
  from g1 g2 given ids answer show ?thesis
    by simp
qed

section \<open>Properties of the client\<close>

subsection \<open>The count update\<close>

lemma increment_exact: "\<bar>x\<bar> < 2 ^ 53 \<Longrightarrow> increment (Num x) = Num (x + 1)"
  by (auto simp: increment_def double_succ_def abs_less_iff)

lemma decrement_exact: "\<bar>x\<bar> < 2 ^ 53 \<Longrightarrow> decrement (Num x) = Num (x - 1)"
  by (auto simp: decrement_def double_pred_def double_succ_def abs_less_iff)

lemma castVote_send_state:
  assumes "reviewId \<notin> pendingOperations s"
  shows "castVote_send reviewId d s =
     s\<lparr>votes := (votes s)(reviewId \<mapsto> Some d),
       voteCounts := (voteCounts s)(reviewId \<mapsto>
          count_update (vote_or_null (votes s) reviewId) (Some d)
            (counts_or_zero (voteCounts s) reviewId)),
       pendingOperations := insert reviewId (pendingOperations s),
       rollbackCache := (rollbackCache s)(reviewId \<mapsto>
          \<lparr>cached_vote = vote_or_null (votes s) reviewId,
           cached_counts = counts_or_zero (voteCounts s) reviewId\<rparr>),
       sent := sent s @ [POST_vote reviewId d]\<rparr>"
  using assms by (simp add: castVote_send_def updateVoteCountsOptimistically_def Let_def)

lemma removeVote_send_state:
  assumes "reviewId \<notin> pendingOperations s"
  shows "removeVote_send reviewId s =
     s\<lparr>votes := (votes s)(reviewId \<mapsto> None),
       voteCounts := (voteCounts s)(reviewId \<mapsto>
          count_update (vote_or_null (votes s) reviewId) None
            (counts_or_zero (voteCounts s) reviewId)),
       pendingOperations := insert reviewId (pendingOperations s),
       rollbackCache := (rollbackCache s)(reviewId \<mapsto>
          \<lparr>cached_vote = vote_or_null (votes s) reviewId,
           cached_counts = counts_or_zero (voteCounts s) reviewId\<rparr>),
       sent := sent s @ [DELETE_vote reviewId]\<rparr>"
  using assms by (simp add: removeVote_send_def updateVoteCountsOptimistically_def Let_def)

lemma count_update_exact:
  assumes "\<bar>h\<bar> < 2 ^ 53" "\<bar>u\<bar> < 2 ^ 53"
  shows "count_update (Some Helpful) (Some Unhelpful) \<lparr>helpful = Num h, unhelpful = Num u\<rparr>
           = \<lparr>helpful = Num (h - 1), unhelpful = Num (u + 1)\<rparr>"
    and "count_update (Some Unhelpful) (Some Helpful) \<lparr>helpful = Num h, unhelpful = Num u\<rparr>
           = \<lparr>helpful = Num (h + 1), unhelpful = Num (u - 1)\<rparr>"
    and "count_update None (Some Helpful) \<lparr>helpful = Num h, unhelpful = Num u\<rparr>
           = \<lparr>helpful = Num (h + 1), unhelpful = Num u\<rparr>"
    and "count_update None (Some Unhelpful) \<lparr>helpful = Num h, unhelpful = Num u\<rparr>
           = \<lparr>helpful = Num h, unhelpful = Num (u + 1)\<rparr>"
    and "count_update (Some Helpful) None \<lparr>helpful = Num h, unhelpful = Num u\<rparr>
           = \<lparr>helpful = Num (h - 1), unhelpful = Num u\<rparr>"
    and "count_update (Some Unhelpful) None \<lparr>helpful = Num h, unhelpful = Num u\<rparr>
           = \<lparr>helpful = Num h, unhelpful = Num (u - 1)\<rparr>"
  using assms by (simp_all add: count_update_def increment_exact decrement_exact)

text \<open>
  C5 as the specification states it: on every vote transition the pair moves by the
  count update, a removal changing the net score by 1. The hook shows helpful with
  counts 3/1; \<open>castVote\<close> with helpful, the direction already held, updates the counts
  from helpful to helpful, the server toggles the vote off, and the hook ends with no
  vote and the counts still 3/1. And at a count of \<open>2^53\<close> the increment of a cast is
  lost.
\<close>

theorem held_direction_cast_keeps_counts:
  "getUserVote sample_hook ''r1'' = Some Helpful
   \<and> voteCounts sample_hook ''r1'' = Some \<lparr>helpful = Num 3, unhelpful = Num 1\<rparr>
   \<and> getUserVote (castVote_settle ''r1'' (Json removed_reply)
         (castVote_send ''r1'' Helpful sample_hook)) ''r1'' = None
   \<and> voteCounts (castVote_settle ''r1'' (Json removed_reply)
         (castVote_send ''r1'' Helpful sample_hook)) ''r1''
       = Some \<lparr>helpful = Num 3, unhelpful = Num 1\<rparr>
   \<and> count_update None (Some Helpful) \<lparr>helpful = Num (2 ^ 53), unhelpful = Num 0\<rparr>
       = \<lparr>helpful = Num (2 ^ 53), unhelpful = Num 0\<rparr>"
proof -
  have p: "''r1'' \<notin> pendingOperations sample_hook"
    by (simp add: sample_hook_def)
  have before: "getUserVote sample_hook ''r1'' = Some Helpful"
    "voteCounts sample_hook ''r1'' = Some \<lparr>helpful = Num 3, unhelpful = Num 1\<rparr>"
    by (simp_all add: sample_hook_def getUserVote_def vote_or_null_def)
  have same: "count_update (Some Helpful) (Some Helpful) \<lparr>helpful = Num 3, unhelpful = Num 1\<rparr>
      = \<lparr>helpful = Num 3, unhelpful = Num 1\<rparr>"
    by (simp add: count_update_def increment_exact decrement_exact)
  have after: "voteCounts (castVote_send ''r1'' Helpful sample_hook) ''r1''
      = Some \<lparr>helpful = Num 3, unhelpful = Num 1\<rparr>"
    unfolding castVote_send_state [OF p]
    by (simp add: sample_hook_def vote_or_null_def counts_or_zero_def same)
  have lost: "count_update None (Some Helpful) \<lparr>helpful = Num (2 ^ 53), unhelpful = Num 0\<rparr>
       = \<lparr>helpful = Num (2 ^ 53), unhelpful = Num 0\<rparr>"
    by (simp add: count_update_def increment_def double_succ_def)
  show ?thesis
    using before after lost
    by (simp add: castVote_settle_def removed_reply_def getUserVote_def vote_or_null_def Let_def)
qed

text \<open>
  C5, amended. For a review whose counts are integers of magnitude below \<open>2^53\<close>, a
  \<open>castVote\<close> or \<open>removeVote\<close> that passes the pending guard replaces the pair, in one
  state update, by the count update from the direction held locally to the requested
  direction (to none for \<open>removeVote\<close>): one off the counter of the held direction, if
  any, then one onto the counter of the new direction, if any. A cast of the other
  direction moves the net score helpful minus unhelpful by 2 (down from helpful to
  unhelpful, up the other way), a cast from no vote by 1 (up for helpful, down for
  unhelpful), a \<open>removeVote\<close> by 1 (down from helpful, up from unhelpful). The button
  moves its net count, of magnitude below \<open>2^53 - 1\<close>, by the same amounts, and by 1
  when the direction held is cast again.
\<close>

theorem vote_transitions_move_counts:
  assumes "reviewId \<notin> pendingOperations s"
    and "counts_or_zero (voteCounts s) reviewId = \<lparr>helpful = Num h, unhelpful = Num u\<rparr>"
    and "\<bar>h\<bar> < 2 ^ 53" "\<bar>u\<bar> < 2 ^ 53"
    and "\<not> button_isLoading b" "voteCount b = Num n" "\<bar>n\<bar> < 2 ^ 53 - 1"
  shows
   "voteCounts (castVote_send reviewId d s) reviewId
      = Some (count_update (vote_or_null (votes s) reviewId) (Some d)
                (counts_or_zero (voteCounts s) reviewId))
    \<and> voteCounts (removeVote_send reviewId s) reviewId
      = Some (count_update (vote_or_null (votes s) reviewId) None
                (counts_or_zero (voteCounts s) reviewId))
    \<and> (vote_or_null (votes s) reviewId = Some Helpful \<longrightarrow>
          voteCounts (castVote_send reviewId Unhelpful s) reviewId
            = Some \<lparr>helpful = Num (h - 1), unhelpful = Num (u + 1)\<rparr>
        \<and> net_score \<lparr>helpful = Num (h - 1), unhelpful = Num (u + 1)\<rparr> = Some (h - u - 2)
        \<and> voteCounts (removeVote_send reviewId s) reviewId
            = Some \<lparr>helpful = Num (h - 1), unhelpful = Num u\<rparr>
        \<and> net_score \<lparr>helpful = Num (h - 1), unhelpful = Num u\<rparr> = Some (h - u - 1))
    \<and> (vote_or_null (votes s) reviewId = Some Unhelpful \<longrightarrow>
          voteCounts (castVote_send reviewId Helpful s) reviewId
            = Some \<lparr>helpful = Num (h + 1), unhelpful = Num (u - 1)\<rparr>
        \<and> net_score \<lparr>helpful = Num (h + 1), unhelpful = Num (u - 1)\<rparr> = Some (h - u + 2)
        \<and> voteCounts (removeVote_send reviewId s) reviewId
            = Some \<lparr>helpful = Num h, unhelpful = Num (u - 1)\<rparr>
        \<and> net_score \<lparr>helpful = Num h, unhelpful = Num (u - 1)\<rparr> = Some (h - u + 1))
    \<and> (vote_or_null (votes s) reviewId = None \<longrightarrow>
          voteCounts (castVote_send reviewId Helpful s) reviewId
            = Some \<lparr>helpful = Num (h + 1), unhelpful = Num u\<rparr>
        \<and> net_score \<lparr>helpful = Num (h + 1), unhelpful = Num u\<rparr> = Some (h - u + 1)
        \<and> voteCounts (castVote_send reviewId Unhelpful s) reviewId
            = Some \<lparr>helpful = Num h, unhelpful = Num (u + 1)\<rparr>
        \<and> net_score \<lparr>helpful = Num h, unhelpful = Num (u + 1)\<rparr> = Some (h - u - 1))
    \<and> net_score (counts_or_zero (voteCounts s) reviewId) = Some (h - u)
    \<and> (currentVote b = Some Helpful \<longrightarrow>
          voteCount (handleVote_send reviewId Unhelpful b) = Num (n - 2)
        \<and> voteCount (handleVote_send reviewId Helpful b) = Num (n - 1))
    \<and> (currentVote b = Some Unhelpful \<longrightarrow>
          voteCount (handleVote_send reviewId Helpful b) = Num (n + 2)
        \<and> voteCount (handleVote_send reviewId Unhelpful b) = Num (n + 1))
    \<and> (currentVote b = None \<longrightarrow>
          voteCount (handleVote_send reviewId Helpful b) = Num (n + 1)
        \<and> voteCount (handleVote_send reviewId Unhelpful b) = Num (n - 1))"
proof -
  note c = assms(2)
  note exact = count_update_exact [OF assms(3,4)]
  have hook_part:
    "voteCounts (castVote_send reviewId d s) reviewId
      = Some (count_update (vote_or_null (votes s) reviewId) (Some d)
                (counts_or_zero (voteCounts s) reviewId))"
    "voteCounts (removeVote_send reviewId s) reviewId
      = Some (count_update (vote_or_null (votes s) reviewId) None
                (counts_or_zero (voteCounts s) reviewId))" for d
    by (simp_all add: castVote_send_state [OF assms(1)] removeVote_send_state [OF assms(1)])
  have near: "\<bar>n\<bar> < 2 ^ 53" "\<bar>n - 1\<bar> < 2 ^ 53" "\<bar>n + 1\<bar> < 2 ^ 53"
    using assms(7) by (auto simp: abs_less_iff)
  have steps: "decrement (Num n) = Num (n - 1)" "increment (Num n) = Num (n + 1)"
    "decrement (Num (n - 1)) = Num (n - 2)" "increment (Num (n + 1)) = Num (n + 2)"
    "increment (Num (n - 1)) = Num n" "decrement (Num (n + 1)) = Num n"
    using increment_exact [OF near(1)] decrement_exact [OF near(1)]
          increment_exact [OF near(2)] decrement_exact [OF near(2)]
          increment_exact [OF near(3)] decrement_exact [OF near(3)]
    by simp_all
  have button_part:
    "currentVote b = Some Helpful \<longrightarrow>
          voteCount (handleVote_send reviewId Unhelpful b) = Num (n - 2)
        \<and> voteCount (handleVote_send reviewId Helpful b) = Num (n - 1)"
    "currentVote b = Some Unhelpful \<longrightarrow>
          voteCount (handleVote_send reviewId Helpful b) = Num (n + 2)
        \<and> voteCount (handleVote_send reviewId Unhelpful b) = Num (n + 1)"
    "currentVote b = None \<longrightarrow>
          voteCount (handleVote_send reviewId Helpful b) = Num (n + 1)
        \<and> voteCount (handleVote_send reviewId Unhelpful b) = Num (n - 1)"
    using assms(5,6)
    by (simp_all add: handleVote_send_def handleVote_count_def steps Let_def)
  show ?thesis
    using button_part
    by (simp add: hook_part c exact net_score_def)
qed

theorem vote_transitions_move_counts_witness:
  "''r1'' \<notin> pendingOperations sample_hook
   \<and> counts_or_zero (voteCounts sample_hook) ''r1'' = \<lparr>helpful = Num 3, unhelpful = Num 1\<rparr>
   \<and> \<bar>3 :: int\<bar> < 2 ^ 53 \<and> \<bar>1 :: int\<bar> < 2 ^ 53
   \<and> \<not> button_isLoading sample_button \<and> voteCount sample_button = Num 2
   \<and> \<bar>2 :: int\<bar> < 2 ^ 53 - 1
   \<and> vote_or_null (votes sample_hook) ''r1'' = Some Helpful
   \<and> voteCounts (castVote_send ''r1'' Unhelpful sample_hook) ''r1''
       = Some \<lparr>helpful = Num 2, unhelpful = Num 2\<rparr>
   \<and> voteCounts (removeVote_send ''r1'' sample_hook) ''r1''
       = Some \<lparr>helpful = Num 2, unhelpful = Num 1\<rparr>
   \<and> currentVote sample_button = Some Helpful
   \<and> voteCount (handleVote_send ''r1'' Unhelpful sample_button) = Num 0
   \<and> voteCount (handleVote_send ''r1'' Helpful sample_button) = Num 1"
proof -
  have given: "''r1'' \<notin> pendingOperations sample_hook"
    "counts_or_zero (voteCounts sample_hook) ''r1'' = \<lparr>helpful = Num 3, unhelpful = Num 1\<rparr>"
    "\<bar>3 :: int\<bar> < 2 ^ 53" "\<bar>1 :: int\<bar> < 2 ^ 53"
    "\<not> button_isLoading sample_button" "voteCount sample_button = Num 2"
    "\<bar>2 :: int\<bar> < 2 ^ 53 - 1"
    by (simp_all add: sample_hook_def sample_button_def counts_or_zero_def)
  have held: "vote_or_null (votes sample_hook) ''r1'' = Some Helpful"
    "currentVote sample_button = Some Helpful"
    by (simp_all add: sample_hook_def sample_button_def vote_or_null_def)
  note t = vote_transitions_move_counts [OF given, where d = Unhelpful]
  from t given held show ?thesis
    by (simp add: count_update_def increment_exact decrement_exact)
qed

subsection \<open>The pending guard\<close>

lemma castVote_send_pending:
  "reviewId \<notin> pendingOperations s \<Longrightarrow>
     pendingOperations (castVote_send reviewId d s) = insert reviewId (pendingOperations s)
     \<and> sent (castVote_send reviewId d s) = sent s @ [POST_vote reviewId d]"
  by (simp add: castVote_send_def updateVoteCountsOptimistically_def Let_def)

lemma removeVote_send_pending:
  "reviewId \<notin> pendingOperations s \<Longrightarrow>
     pendingOperations (removeVote_send reviewId s) = insert reviewId (pendingOperations s)
     \<and> sent (removeVote_send reviewId s) = sent s @ [DELETE_vote reviewId]"
  by (simp add: removeVote_send_def updateVoteCountsOptimistically_def Let_def)

lemma send_marks_pending:
  "reviewId \<in> pendingOperations (castVote_send reviewId d s)"
  "reviewId \<in> pendingOperations (removeVote_send reviewId s)"
  by (cases "reviewId \<in> pendingOperations s";
      simp add: castVote_send_def removeVote_send_def updateVoteCountsOptimistically_def Let_def)+

lemma settle_clears_pending:
  "reviewId \<notin> pendingOperations (castVote_settle reviewId res t)"
  "reviewId \<notin> pendingOperations (removeVote_settle reviewId res' t)"
  by (simp_all add: castVote_settle_def removeVote_settle_def Let_def)

text \<open>
  C6. While a review is in \<open>pendingOperations\<close>, \<open>castVote\<close> and \<open>removeVote\<close> for it
  return at once: the state, the log of requests included, is unchanged. So of two calls
  for one review made before the first request settles, only the first sends a request.
  A call for another review that is not pending sends its own request. A review is
  pending from the moment a call passes the guard until its request settles.
\<close>

theorem pending_guard:
  "(reviewId \<in> pendingOperations s \<longrightarrow>
      castVote_send reviewId d s = s \<and> removeVote_send reviewId s = s)
   \<and> (reviewId \<notin> pendingOperations s \<longrightarrow>
        sent (castVote_send reviewId d s) = sent s @ [POST_vote reviewId d]
      \<and> castVote_send reviewId d' (castVote_send reviewId d s) = castVote_send reviewId d s
      \<and> removeVote_send reviewId (castVote_send reviewId d s) = castVote_send reviewId d s
      \<and> sent (removeVote_send reviewId s) = sent s @ [DELETE_vote reviewId]
      \<and> castVote_send reviewId d' (removeVote_send reviewId s) = removeVote_send reviewId s
      \<and> removeVote_send reviewId (removeVote_send reviewId s) = removeVote_send reviewId s)
   \<and> (other \<noteq> reviewId \<and> other \<notin> pendingOperations s \<longrightarrow>
        sent (castVote_send other d' (castVote_send reviewId d s))
          = sent (castVote_send reviewId d s) @ [POST_vote other d']
      \<and> sent (removeVote_send other (castVote_send reviewId d s))
          = sent (castVote_send reviewId d s) @ [DELETE_vote other]
      \<and> sent (castVote_send other d' (removeVote_send reviewId s))
          = sent (removeVote_send reviewId s) @ [POST_vote other d']
      \<and> sent (removeVote_send other (removeVote_send reviewId s))
          = sent (removeVote_send reviewId s) @ [DELETE_vote other])
   \<and> reviewId \<in> pendingOperations (castVote_send reviewId d s)
   \<and> reviewId \<in> pendingOperations (removeVote_send reviewId s)
   \<and> reviewId \<notin> pendingOperations (castVote_settle reviewId res t)
   \<and> reviewId \<notin> pendingOperations (removeVote_settle reviewId res' t)"
proof (cases "reviewId \<in> pendingOperations s")
  case True
  then have same: "castVote_send reviewId d s = s" "removeVote_send reviewId s = s"
    by (simp_all add: castVote_send_def removeVote_send_def)
  show ?thesis
    using True
    by (simp add: same castVote_send_pending removeVote_send_pending settle_clears_pending)
next
  case False
  note c = castVote_send_pending [OF False, of d]
  note r = removeVote_send_pending [OF False]
  have blocked:
    "castVote_send reviewId d' t = t" "removeVote_send reviewId t = t"
    if "reviewId \<in> pendingOperations t" for t
    using that by (simp_all add: castVote_send_def removeVote_send_def)
  have free:
    "sent (castVote_send other d' t) = sent t @ [POST_vote other d']"
    "sent (removeVote_send other t) = sent t @ [DELETE_vote other]"
    if "other \<notin> pendingOperations t" for t
    using that castVote_send_pending [of other t d'] removeVote_send_pending [of other t]
    by simp_all
  show ?thesis
    using False by (simp add: c r blocked free settle_clears_pending)
qed

theorem pending_guard_witness:
  "''r1'' \<notin> pendingOperations sample_hook
   \<and> ''r1'' \<in> pendingOperations (castVote_send ''r1'' Unhelpful sample_hook)
   \<and> sent (castVote_send ''r1'' Helpful (castVote_send ''r1'' Unhelpful sample_hook))
       = [POST_vote ''r1'' Unhelpful]
   \<and> castVote_send ''r1'' Helpful (castVote_send ''r1'' Unhelpful sample_hook)
       = castVote_send ''r1'' Unhelpful sample_hook
   \<and> removeVote_send ''r1'' (castVote_send ''r1'' Unhelpful sample_hook)
       = castVote_send ''r1'' Unhelpful sample_hook
   \<and> ''r2'' \<noteq> ''r1'' \<and> ''r2'' \<notin> pendingOperations sample_hook
   \<and> sent (castVote_send ''r2'' Helpful (castVote_send ''r1'' Unhelpful sample_hook))
       = [POST_vote ''r1'' Unhelpful, POST_vote ''r2'' Helpful]"
proof -
  have p: "''r1'' \<notin> pendingOperations sample_hook"
    and q: "''r2'' \<noteq> ''r1''" "''r2'' \<notin> pendingOperations sample_hook"
    and s0: "sent sample_hook = []"
    by (simp_all add: sample_hook_def)
  have in_flight: "''r1'' \<in> pendingOperations (castVote_send ''r1'' Unhelpful sample_hook)"
    using castVote_send_pending [OF p, of Unhelpful] by simp
  note g = pending_guard [where reviewId = "''r1''" and s = sample_hook and d = Unhelpful
          and d' = Helpful and other = "''r2''"]
  from g p q s0 in_flight show ?thesis
    by simp
qed

subsection \<open>Rollback\<close>

text \<open>
  A failed request whose snapshot is still in the cache: whatever happened to the state
  since the snapshot was taken, the review's direction and counts become the snapshot's.
\<close>

lemma castVote_settle_failed:
  assumes "request_failed reply_success res" "rollbackCache t reviewId = Some c"
  shows "castVote_settle reviewId res t =
     t\<lparr>votes := (votes t)(reviewId \<mapsto> cached_vote c),
       voteCounts := (voteCounts t)(reviewId \<mapsto> cached_counts c),
       pendingOperations := pendingOperations t - {reviewId},
       rollbackCache := (rollbackCache t)(reviewId := None),
       signals := signals t @ [ConsoleError ''Error casting vote:'',
                    ToastError ''Failed to cast vote. Please try again.'',
                    OnVoteError (thrown_message reply_error ''Failed to cast vote'' res)]\<rparr>"
  using assms
  by (cases res)
     (simp_all add: castVote_settle_def castVote_failed_def rollbackVote_def request_failed_def
        thrown_message_def Let_def)

lemma removeVote_settle_failed:
  assumes "request_failed deleted_success res" "rollbackCache t reviewId = Some c"
  shows "removeVote_settle reviewId res t =
     t\<lparr>votes := (votes t)(reviewId \<mapsto> cached_vote c),
       voteCounts := (voteCounts t)(reviewId \<mapsto> cached_counts c),
       pendingOperations := pendingOperations t - {reviewId},
       rollbackCache := (rollbackCache t)(reviewId := None),
       signals := signals t @ [ConsoleError ''Error removing vote:'',
                    ToastError ''Failed to remove vote. Please try again.'',
                    OnVoteError (thrown_message deleted_error ''Failed to remove vote'' res)]\<rparr>"
  using assms
  by (cases res)
     (simp_all add: removeVote_settle_def removeVote_failed_def rollbackVote_def request_failed_def
        thrown_message_def Let_def)

text \<open>
  C4 as the specification states it: after a failed request the state for the review
  equals the state before the call bit for bit. On a hook with no entry for \<open>r1\<close>, a
  \<open>castVote\<close> whose request fails leaves \<open>votes\<close> with the entry \<open>null\<close> and
  \<open>voteCounts\<close> with the entry 0/0 where neither had an entry before.
\<close>

theorem failed_cast_leaves_entries:
  "votes fresh_hook ''r1'' = None
   \<and> voteCounts fresh_hook ''r1'' = None
   \<and> votes (castVote_settle ''r1'' NotOk (castVote_send ''r1'' Helpful fresh_hook)) ''r1''
       = Some None
   \<and> voteCounts (castVote_settle ''r1'' NotOk (castVote_send ''r1'' Helpful fresh_hook)) ''r1''
       = Some \<lparr>helpful = Num 0, unhelpful = Num 0\<rparr>"
proof -
  have p: "''r1'' \<notin> pendingOperations fresh_hook"
    by (simp add: fresh_hook_def)
  have f: "request_failed reply_success (NotOk :: vote_reply fetch_result)"
    by (simp add: request_failed_def)
  have snapshot: "rollbackCache (castVote_send ''r1'' Helpful fresh_hook) ''r1''
      = Some \<lparr>cached_vote = None, cached_counts = \<lparr>helpful = Num 0, unhelpful = Num 0\<rparr>\<rparr>"
    unfolding castVote_send_state [OF p]
    by (simp add: fresh_hook_def vote_or_null_def counts_or_zero_def)
  show ?thesis
    unfolding castVote_settle_failed [OF f snapshot]
    by (simp add: fresh_hook_def)
qed

text \<open>
  C4, amended. A \<open>castVote\<close> or \<open>removeVote\<close> that passes the pending guard and whose
  request fails (\<open>fetch\<close> rejects, the status is not 2xx, the body does not parse, or the
  payload has \<open>success\<close> false) restores the review's direction and its count pair to
  the values snapshotted before the optimistic update, the snapshot reading an absent
  direction as \<open>null\<close> and an absent pair as 0/0. The failure is signalled by a console
  line, an error toast and the \<open>onVoteError\<close> callback; the review is no longer pending
  and its snapshot is gone. Read through \<open>votes[reviewId] || null\<close> and
  \<open>voteCounts[reviewId] || {helpful: 0, unhelpful: 0}\<close>, direction and counts are those
  of before the call; and when the review had both entries and no stale snapshot, the
  whole state is the state before the call, the trace of requests and signals apart. An
  entry that was absent is present afterwards with its default. The button restores its
  vote and its net count in the same way.
\<close>

theorem failed_request_rolls_back:
  assumes "reviewId \<notin> pendingOperations s"
  shows
   "(request_failed reply_success res \<longrightarrow>
      castVote_settle reviewId res (castVote_send reviewId d s) =
         s\<lparr>votes := (votes s)(reviewId \<mapsto> vote_or_null (votes s) reviewId),
           voteCounts := (voteCounts s)(reviewId \<mapsto> counts_or_zero (voteCounts s) reviewId),
           rollbackCache := (rollbackCache s)(reviewId := None),
           sent := sent s @ [POST_vote reviewId d],
           signals := signals s @ [ConsoleError ''Error casting vote:'',
                        ToastError ''Failed to cast vote. Please try again.'',
                        OnVoteError (thrown_message reply_error ''Failed to cast vote'' res)]\<rparr>
      \<and> getUserVote (castVote_settle reviewId res (castVote_send reviewId d s)) reviewId
          = getUserVote s reviewId
      \<and> counts_or_zero (voteCounts (castVote_settle reviewId res (castVote_send reviewId d s)))
            reviewId
          = counts_or_zero (voteCounts s) reviewId)
    \<and> (request_failed deleted_success res' \<longrightarrow>
      removeVote_settle reviewId res' (removeVote_send reviewId s) =
         s\<lparr>votes := (votes s)(reviewId \<mapsto> vote_or_null (votes s) reviewId),
           voteCounts := (voteCounts s)(reviewId \<mapsto> counts_or_zero (voteCounts s) reviewId),
           rollbackCache := (rollbackCache s)(reviewId := None),
           sent := sent s @ [DELETE_vote reviewId],
           signals := signals s @ [ConsoleError ''Error removing vote:'',
                        ToastError ''Failed to remove vote. Please try again.'',
                        OnVoteError (thrown_message deleted_error ''Failed to remove vote'' res')]\<rparr>
      \<and> getUserVote (removeVote_settle reviewId res' (removeVote_send reviewId s)) reviewId
          = getUserVote s reviewId
      \<and> counts_or_zero (voteCounts (removeVote_settle reviewId res' (removeVote_send reviewId s)))
            reviewId
          = counts_or_zero (voteCounts s) reviewId)
    \<and> (\<not> button_isLoading b \<and> request_failed reply_success res \<longrightarrow>
        handleVote_settle b res (handleVote_send reviewId d b)
        = b\<lparr>button_sent := button_sent b @ [POST_vote reviewId d]\<rparr>)
    \<and> (request_failed reply_success res \<and> votes s reviewId \<noteq> None
         \<and> voteCounts s reviewId \<noteq> None \<and> rollbackCache s reviewId = None \<longrightarrow>
      castVote_settle reviewId res (castVote_send reviewId d s) =
         s\<lparr>sent := sent s @ [POST_vote reviewId d],
           signals := signals s @ [ConsoleError ''Error casting vote:'',
                        ToastError ''Failed to cast vote. Please try again.'',
                        OnVoteError (thrown_message reply_error ''Failed to cast vote'' res)]\<rparr>)
    \<and> (request_failed deleted_success res' \<and> votes s reviewId \<noteq> None
         \<and> voteCounts s reviewId \<noteq> None \<and> rollbackCache s reviewId = None \<longrightarrow>
      removeVote_settle reviewId res' (removeVote_send reviewId s) =
         s\<lparr>sent := sent s @ [DELETE_vote reviewId],
           signals := signals s @ [ConsoleError ''Error removing vote:'',
                        ToastError ''Failed to remove vote. Please try again.'',
                        OnVoteError (thrown_message deleted_error ''Failed to remove vote'' res')]\<rparr>)"
proof -
  have cast: "castVote_settle reviewId res (castVote_send reviewId d s) =
         s\<lparr>votes := (votes s)(reviewId \<mapsto> vote_or_null (votes s) reviewId),
           voteCounts := (voteCounts s)(reviewId \<mapsto> counts_or_zero (voteCounts s) reviewId),
           rollbackCache := (rollbackCache s)(reviewId := None),
           sent := sent s @ [POST_vote reviewId d],
           signals := signals s @ [ConsoleError ''Error casting vote:'',
                        ToastError ''Failed to cast vote. Please try again.'',
                        OnVoteError (thrown_message reply_error ''Failed to cast vote'' res)]\<rparr>"
    if f: "request_failed reply_success res"
    using assms
    by (subst castVote_settle_failed [OF f, where c =
              "\<lparr>cached_vote = vote_or_null (votes s) reviewId,
                cached_counts = counts_or_zero (voteCounts s) reviewId\<rparr>"])
       (simp_all add: castVote_send_state [OF assms])
  have remove: "removeVote_settle reviewId res' (removeVote_send reviewId s) =
         s\<lparr>votes := (votes s)(reviewId \<mapsto> vote_or_null (votes s) reviewId),
           voteCounts := (voteCounts s)(reviewId \<mapsto> counts_or_zero (voteCounts s) reviewId),
           rollbackCache := (rollbackCache s)(reviewId := None),
           sent := sent s @ [DELETE_vote reviewId],
           signals := signals s @ [ConsoleError ''Error removing vote:'',
                        ToastError ''Failed to remove vote. Please try again.'',
                        OnVoteError (thrown_message deleted_error ''Failed to remove vote'' res')]\<rparr>"
    if f: "request_failed deleted_success res'"
    using assms
    by (subst removeVote_settle_failed [OF f, where c =
              "\<lparr>cached_vote = vote_or_null (votes s) reviewId,
                cached_counts = counts_or_zero (voteCounts s) reviewId\<rparr>"])
       (simp_all add: removeVote_send_state [OF assms])
  have button: "handleVote_settle b res (handleVote_send reviewId d b)
        = b\<lparr>button_sent := button_sent b @ [POST_vote reviewId d]\<rparr>"
    if "\<not> button_isLoading b" "request_failed reply_success res"
    using that
    by (cases res; cases "handleVote_count (currentVote b) d (voteCount b)")
       (simp_all add: handleVote_settle_def handleVote_send_def request_failed_def Let_def)
  have present:
    "(votes s)(reviewId \<mapsto> vote_or_null (votes s) reviewId) = votes s"
    "(voteCounts s)(reviewId \<mapsto> counts_or_zero (voteCounts s) reviewId) = voteCounts s"
    "(rollbackCache s)(reviewId := None) = rollbackCache s"
    if "votes s reviewId \<noteq> None" "voteCounts s reviewId \<noteq> None"
       "rollbackCache s reviewId = None"
    using that by (auto simp: vote_or_null_def counts_or_zero_def fun_eq_iff)
  have exact_cast: "castVote_settle reviewId res (castVote_send reviewId d s) =
         s\<lparr>sent := sent s @ [POST_vote reviewId d],
           signals := signals s @ [ConsoleError ''Error casting vote:'',
                        ToastError ''Failed to cast vote. Please try again.'',
                        OnVoteError (thrown_message reply_error ''Failed to cast vote'' res)]\<rparr>"
    if "request_failed reply_success res" "votes s reviewId \<noteq> None"
       "voteCounts s reviewId \<noteq> None" "rollbackCache s reviewId = None"
    by (simp add: cast [OF that(1)] present [OF that(2-4)])
  have exact_remove: "removeVote_settle reviewId res' (removeVote_send reviewId s) =
         s\<lparr>sent := sent s @ [DELETE_vote reviewId],
           signals := signals s @ [ConsoleError ''Error removing vote:'',
                        ToastError ''Failed to remove vote. Please try again.'',
                        OnVoteError (thrown_message deleted_error ''Failed to remove vote'' res')]\<rparr>"
    if "request_failed deleted_success res'" "votes s reviewId \<noteq> None"
       "voteCounts s reviewId \<noteq> None" "rollbackCache s reviewId = None"
    by (simp add: remove [OF that(1)] present [OF that(2-4)])
  show ?thesis
  proof (intro conjI impI)
    show "castVote_settle reviewId res (castVote_send reviewId d s) =
         s\<lparr>sent := sent s @ [POST_vote reviewId d],
           signals := signals s @ [ConsoleError ''Error casting vote:'',
                        ToastError ''Failed to cast vote. Please try again.'',
                        OnVoteError (thrown_message reply_error ''Failed to cast vote'' res)]\<rparr>"
      if "request_failed reply_success res \<and> votes s reviewId \<noteq> None
          \<and> voteCounts s reviewId \<noteq> None \<and> rollbackCache s reviewId = None"
      using that exact_cast by blast
    show "removeVote_settle reviewId res' (removeVote_send reviewId s) =
         s\<lparr>sent := sent s @ [DELETE_vote reviewId],
           signals := signals s @ [ConsoleError ''Error removing vote:'',
                        ToastError ''Failed to remove vote. Please try again.'',
                        OnVoteError (thrown_message deleted_error ''Failed to remove vote'' res')]\<rparr>"
      if "request_failed deleted_success res' \<and> votes s reviewId \<noteq> None
          \<and> voteCounts s reviewId \<noteq> None \<and> rollbackCache s reviewId = None"
      using that exact_remove by blast
  qed (simp_all add: cast remove button getUserVote_def vote_or_null_def counts_or_zero_def)
qed

theorem failed_request_rolls_back_witness:
  "''r1'' \<notin> pendingOperations sample_hook
   \<and> request_failed reply_success (NotOk :: vote_reply fetch_result)
   \<and> votes (castVote_send ''r1'' Unhelpful sample_hook) ''r1'' = Some (Some Unhelpful)
   \<and> voteCounts (castVote_send ''r1'' Unhelpful sample_hook) ''r1''
       = Some \<lparr>helpful = Num 2, unhelpful = Num 2\<rparr>
   \<and> castVote_settle ''r1'' NotOk (castVote_send ''r1'' Unhelpful sample_hook)
       = sample_hook
          \<lparr>sent := [POST_vote ''r1'' Unhelpful],
           signals := [ConsoleError ''Error casting vote:'',
                       ToastError ''Failed to cast vote. Please try again.'',
                       OnVoteError ''Failed to cast vote'']\<rparr>
   \<and> request_failed deleted_success (Json \<lparr>deleted_success = False, deleted_error = None\<rparr>)
   \<and> removeVote_settle ''r1'' (Json \<lparr>deleted_success = False, deleted_error = None\<rparr>)
         (removeVote_send ''r1'' sample_hook)
       = sample_hook
          \<lparr>sent := [DELETE_vote ''r1''],
           signals := [ConsoleError ''Error removing vote:'',
                       ToastError ''Failed to remove vote. Please try again.'',
                       OnVoteError ''Failed to remove vote'']\<rparr>
   \<and> \<not> button_isLoading sample_button
   \<and> currentVote (handleVote_send ''r1'' Unhelpful sample_button) = Some Unhelpful
   \<and> voteCount (handleVote_send ''r1'' Unhelpful sample_button) = Num 0
   \<and> handleVote_settle sample_button NotOk (handleVote_send ''r1'' Unhelpful sample_button)
       = sample_button\<lparr>button_sent := [POST_vote ''r1'' Unhelpful]\<rparr>
   \<and> ''r1'' \<notin> pendingOperations fresh_hook
   \<and> getUserVote (castVote_settle ''r1'' NotOk (castVote_send ''r1'' Helpful fresh_hook)) ''r1''
       = getUserVote fresh_hook ''r1''
   \<and> counts_or_zero
         (voteCounts (castVote_settle ''r1'' NotOk (castVote_send ''r1'' Helpful fresh_hook))) ''r1''
       = counts_or_zero (voteCounts fresh_hook) ''r1''"
proof -
  have p: "''r1'' \<notin> pendingOperations sample_hook"
    by (simp add: sample_hook_def)
  have f: "request_failed reply_success (NotOk :: vote_reply fetch_result)"
    "request_failed deleted_success (Json \<lparr>deleted_success = False, deleted_error = None\<rparr>)"
    by (simp_all add: request_failed_def)
  have fresh: "''r1'' \<notin> pendingOperations fresh_hook"
    by (simp add: fresh_hook_def)
  note r' = failed_request_rolls_back [OF fresh, where res = NotOk and d = Helpful
              and res' = NotOk and b = sample_button]
  have mounted:
    "getUserVote (castVote_settle ''r1'' NotOk (castVote_send ''r1'' Helpful fresh_hook)) ''r1''
       = getUserVote fresh_hook ''r1''"
    "counts_or_zero
         (voteCounts (castVote_settle ''r1'' NotOk (castVote_send ''r1'' Helpful fresh_hook))) ''r1''
       = counts_or_zero (voteCounts fresh_hook) ''r1''"
    using r' f by blast+
  have m: "thrown_message reply_error ''Failed to cast vote'' (NotOk :: vote_reply fetch_result)
             = ''Failed to cast vote''"
    "thrown_message deleted_error ''Failed to remove vote''
        (Json \<lparr>deleted_success = False, deleted_error = None\<rparr>) = ''Failed to remove vote''"
    by (simp_all add: thrown_message_def error_or_def falsy_def)
  have before:
    "(votes sample_hook)(''r1'' \<mapsto> vote_or_null (votes sample_hook) ''r1'') = votes sample_hook"
    "(voteCounts sample_hook)(''r1'' \<mapsto> counts_or_zero (voteCounts sample_hook) ''r1'')
       = voteCounts sample_hook"
    "(rollbackCache sample_hook)(''r1'' := None) = rollbackCache sample_hook"
    "sent sample_hook = []" "signals sample_hook = []"
    by (simp_all add: sample_hook_def vote_or_null_def counts_or_zero_def)
  have optimistic:
    "votes (castVote_send ''r1'' Unhelpful sample_hook) ''r1'' = Some (Some Unhelpful)"
    "voteCounts (castVote_send ''r1'' Unhelpful sample_hook) ''r1''
       = Some \<lparr>helpful = Num 2, unhelpful = Num 2\<rparr>"
    unfolding castVote_send_state [OF p]
    by (simp_all add: sample_hook_def vote_or_null_def counts_or_zero_def count_update_def
          increment_exact decrement_exact)
  have btn: "\<not> button_isLoading sample_button"
    "currentVote (handleVote_send ''r1'' Unhelpful sample_button) = Some Unhelpful"
    "voteCount (handleVote_send ''r1'' Unhelpful sample_button) = Num 0"
    "button_sent sample_button = []"
    by (simp_all add: sample_button_def handleVote_send_def handleVote_count_def
          increment_exact decrement_exact)
  note r = failed_request_rolls_back [OF p, where res = NotOk and d = Unhelpful
             and res' = "Json \<lparr>deleted_success = False, deleted_error = None\<rparr>"
             and b = sample_button]
  from r f show ?thesis
    by (simp add: p m before optimistic btn fresh mounted)
qed

subsection \<open>Reconciliation on success\<close>

text \<open>
  C8. When the request of a \<open>castVote\<close> succeeds, the review's direction becomes the
  \<open>vote_type\<close> of the response, the counts stay as they are (the response does not
  touch them), the review's snapshot leaves the rollback cache and the review is no
  longer pending. A successful \<open>removeVote\<close> clears the snapshot and the pending mark and
  leaves directions and counts as the optimistic update set them. The button takes the
  response's \<open>vote_type\<close> and keeps its count.
\<close>

theorem successful_request_reconciles:
  "(reply_success data \<longrightarrow>
      castVote_settle reviewId (Json data) t =
        t\<lparr>votes := (votes t)(reviewId \<mapsto> reply_vote_type data),
          pendingOperations := pendingOperations t - {reviewId},
          rollbackCache := (rollbackCache t)(reviewId := None),
          signals := signals t @ [OnVoteSuccess reviewId (reply_vote_type data)]\<rparr>
      \<and> votes (castVote_settle reviewId (Json data) t) reviewId = Some (reply_vote_type data)
      \<and> voteCounts (castVote_settle reviewId (Json data) t) = voteCounts t
      \<and> rollbackCache (castVote_settle reviewId (Json data) t) reviewId = None)
   \<and> (deleted_success data' \<longrightarrow>
      removeVote_settle reviewId (Json data') t =
        t\<lparr>pendingOperations := pendingOperations t - {reviewId},
          rollbackCache := (rollbackCache t)(reviewId := None),
          signals := signals t @ [OnVoteSuccess reviewId None]\<rparr>)
   \<and> (reply_success data \<longrightarrow>
      handleVote_settle rendered (Json data) b =
        b\<lparr>currentVote := reply_vote_type data, button_isLoading := False\<rparr>)"
  by (simp add: castVote_settle_def removeVote_settle_def handleVote_settle_def Let_def)

text \<open>
  The hook shows helpful with counts 3/1; \<open>castVote\<close> with helpful again leaves the
  counts at 3/1, the server toggles the vote off and answers \<open>vote_type\<close> null: the
  direction becomes null and the counts are still 3/1.
\<close>

theorem successful_request_reconciles_witness:
  "reply_success removed_reply
   \<and> rollbackCache (castVote_send ''r1'' Helpful sample_hook) ''r1''
       = Some \<lparr>cached_vote = Some Helpful, cached_counts = \<lparr>helpful = Num 3, unhelpful = Num 1\<rparr>\<rparr>
   \<and> votes (castVote_settle ''r1'' (Json removed_reply) (castVote_send ''r1'' Helpful sample_hook))
         ''r1'' = Some None
   \<and> voteCounts (castVote_settle ''r1'' (Json removed_reply)
         (castVote_send ''r1'' Helpful sample_hook)) ''r1''
       = Some \<lparr>helpful = Num 3, unhelpful = Num 1\<rparr>
   \<and> rollbackCache (castVote_settle ''r1'' (Json removed_reply)
         (castVote_send ''r1'' Helpful sample_hook)) ''r1'' = None
   \<and> deleted_success \<lparr>deleted_success = True, deleted_error = None\<rparr>
   \<and> rollbackCache (removeVote_settle ''r1'' (Json \<lparr>deleted_success = True, deleted_error = None\<rparr>)
         (removeVote_send ''r1'' sample_hook)) ''r1'' = None
   \<and> voteCounts (removeVote_settle ''r1'' (Json \<lparr>deleted_success = True, deleted_error = None\<rparr>)
         (removeVote_send ''r1'' sample_hook)) ''r1''
       = Some \<lparr>helpful = Num 2, unhelpful = Num 1\<rparr>"
proof -
  have p: "''r1'' \<notin> pendingOperations sample_hook"
    by (simp add: sample_hook_def)
  have ok: "reply_success removed_reply"
    "deleted_success \<lparr>deleted_success = True, deleted_error = None\<rparr>"
    by (simp_all add: removed_reply_def)
  have sent_state:
    "rollbackCache (castVote_send ''r1'' Helpful sample_hook) ''r1''
       = Some \<lparr>cached_vote = Some Helpful, cached_counts = \<lparr>helpful = Num 3, unhelpful = Num 1\<rparr>\<rparr>"
    "voteCounts (castVote_send ''r1'' Helpful sample_hook) ''r1''
       = Some \<lparr>helpful = Num 3, unhelpful = Num 1\<rparr>"
    unfolding castVote_send_state [OF p]
    by (simp_all add: sample_hook_def vote_or_null_def counts_or_zero_def count_update_def
          increment_exact decrement_exact)
  have removed_state:
    "voteCounts (removeVote_send ''r1'' sample_hook) ''r1'' = Some \<lparr>helpful = Num 2, unhelpful = Num 1\<rparr>"
    unfolding removeVote_send_state [OF p]
    by (simp add: sample_hook_def vote_or_null_def counts_or_zero_def count_update_def
          decrement_exact)
  note r1 = successful_request_reconciles [where data = removed_reply and reviewId = "''r1''"
        and t = "castVote_send ''r1'' Helpful sample_hook"]
  note r2 = successful_request_reconciles [where reviewId = "''r1''"
        and data' = "\<lparr>deleted_success = True, deleted_error = None\<rparr>"
        and t = "removeVote_send ''r1'' sample_hook"]
  from r1 r2 ok show ?thesis
    by (simp add: sent_state removed_state removed_reply_def)
qed

subsection \<open>Refresh\<close>

text \<open>
  C10. When a fetch of the caller's votes succeeds, the response's map is merged into
  \<open>votes\<close>: a review id in the response takes the response's direction, every other
  entry (absent, or present with any direction) stays as it is. A fetch that fails, and
  the sending of the request by \<open>refreshVotes\<close> or \<open>fetchUserVotes\<close>, leave \<open>votes\<close>
  as it is. So a direction held locally for a review that the server no longer has a
  vote on survives the refresh.
\<close>

theorem fetchUserVotes_merges:
  "(fetched_success data \<longrightarrow>
      votes (fetchUserVotes_settle (Json data) s) = votes s ++ fetched_votes data
      \<and> votes (fetchUserVotes_settle (Json data) s) reviewId
          = (case fetched_votes data reviewId of Some v \<Rightarrow> Some v | None \<Rightarrow> votes s reviewId))
   \<and> (request_failed fetched_success res \<longrightarrow> votes (fetchUserVotes_settle res s) = votes s)
   \<and> votes (refreshVotes_send ids s) = votes s
   \<and> votes (fetchUserVotes_send idList s) = votes s"
  by (cases res)
     (auto simp: fetchUserVotes_settle_def fetchUserVotes_failed_def refreshVotes_send_def
        fetchUserVotes_send_def request_failed_def map_add_def Let_def split: option.splits)

theorem fetchUserVotes_merges_witness:
  "fetched_success refreshed_reply
   \<and> fetched_votes refreshed_reply ''r1'' = None
   \<and> sent (refreshVotes_send (Some [''r1'', ''r2'']) sample_hook) = [GET_votes [''r1'', ''r2'']]
   \<and> votes (fetchUserVotes_settle (Json refreshed_reply)
         (refreshVotes_send (Some [''r1'', ''r2'']) sample_hook)) ''r1'' = Some (Some Helpful)
   \<and> votes (fetchUserVotes_settle (Json refreshed_reply)
         (refreshVotes_send (Some [''r1'', ''r2'']) sample_hook)) ''r2'' = Some (Some Unhelpful)"
proof -
  have ok: "fetched_success refreshed_reply"
    and absent: "fetched_votes refreshed_reply ''r1'' = None"
    and present: "fetched_votes refreshed_reply ''r2'' = Some (Some Unhelpful)"
    by (simp_all add: refreshed_reply_def)
  have request:
    "sent (refreshVotes_send (Some [''r1'', ''r2'']) sample_hook) = [GET_votes [''r1'', ''r2'']]"
    by (simp add: refreshVotes_send_def fetchUserVotes_send_def sample_hook_def)
  have local: "votes sample_hook ''r1'' = Some (Some Helpful)"
    by (simp add: sample_hook_def)
  note m1 = fetchUserVotes_merges [where data = refreshed_reply and reviewId = "''r1''"
        and s = "refreshVotes_send (Some [''r1'', ''r2'']) sample_hook"
        and ids = "Some [''r1'', ''r2'']"]
  note m2 = fetchUserVotes_merges [where data = refreshed_reply and reviewId = "''r2''"
        and s = "refreshVotes_send (Some [''r1'', ''r2'']) sample_hook"]
  note m3 = fetchUserVotes_merges [where s = sample_hook and ids = "Some [''r1'', ''r2'']"]
  from m1 m2 m3 ok show ?thesis
    by (simp add: absent present request local)
qed

end
